theory Spec2Isabelle
  imports Main "HOL-Library.Word"
begin

section \<open>Values that cross the boundary\<close>

text \<open>
  The file under verification, \<^verbatim>\<open>THSConvolution.cpp\<close>, is a C-linkage shim: each
  exported function turns flat arguments into an options object of the wrapped tensor
  library, delegates one call, and converts faults at the boundary.

  \<^item> \<^verbatim>\<open>int64_t\<close> is a 64-bit word, C's \<^verbatim>\<open>int\<close> a 32-bit word.
  \<^item> A pointer is \<open>nullptr\<close> or \<open>Ptr x\<close>, where \<open>x\<close> is what the pointee holds now;
    a function that stores through a pointer returns the pointer with its new pointee.
  \<^item> A computation inside a \<^verbatim>\<open>try\<close> block ends in \<open>Ok v\<close>, in \<open>Throw e\<close> (a C++
    exception carrying the fault \<open>e\<close>) or in \<open>Undefined\<close> (a null or out-of-bounds
    dereference, which no \<^verbatim>\<open>catch\<close> intercepts).
\<close>

type_synonym int64 = "64 word"
type_synonym c_int = "32 word"

datatype 'a ptr = nullptr | Ptr 'a

datatype fault = Expected_values nat nat | Library_fault string

datatype 'a outcome = Ok 'a | Throw fault | Undefined

fun and_then :: "'a outcome \<Rightarrow> ('a \<Rightarrow> 'b outcome) \<Rightarrow> 'b outcome" where
  "and_then (Ok x) f = f x"
| "and_then (Throw e) f = Throw e"
| "and_then Undefined f = Undefined"

section \<open>The wrapped library's option builders\<close>

text \<open>
  The option classes belong to the wrapped library, not to the shim. They are written
  down here as the library's headers declare them: one slot per option, each with the
  library's default, and a setter per slot (a record update).

  \<open>ExpandingArray D v\<close> is \<^verbatim>\<open>ExpandingArray<D>(v)\<close> for a single value: \<open>D\<close> copies.
  A braced list \<^verbatim>\<open>{x, y}\<close> is the list \<open>[x, y]\<close>.
\<close>

definition ExpandingArray :: "nat \<Rightarrow> int64 \<Rightarrow> int64 list" where
  "ExpandingArray D v = replicate D v"

datatype padding_mode_t = kZeros | kReflect | kReplicate | kCircular

text \<open>\<^verbatim>\<open>ConvOptions<D>::padding_t\<close>: a width per axis, or one of the two named policies.\<close>

datatype padding_t = Width "int64 list" | kValid | kSame

record conv_options =
  conv_in_channels :: int64
  conv_out_channels :: int64
  conv_kernel_size :: "int64 list"
  conv_stride :: "int64 list"
  conv_padding :: padding_t
  conv_dilation :: "int64 list"
  conv_groups :: int64
  conv_bias :: bool
  conv_padding_mode :: padding_mode_t

definition ConvOptions :: "nat \<Rightarrow> int64 \<Rightarrow> int64 \<Rightarrow> int64 list \<Rightarrow> conv_options" where
  "ConvOptions D in_channels out_channels kernel_size =
     \<lparr>conv_in_channels = in_channels, conv_out_channels = out_channels,
      conv_kernel_size = kernel_size,
      conv_stride = ExpandingArray D 1,
      conv_padding = Width (ExpandingArray D 0),
      conv_dilation = ExpandingArray D 1,
      conv_groups = 1,
      conv_bias = True,
      conv_padding_mode = kZeros\<rparr>"

definition conv_set_padding_mode :: "padding_mode_t \<Rightarrow> conv_options \<Rightarrow> conv_options" where
  "conv_set_padding_mode m opts = opts\<lparr>conv_padding_mode := m\<rparr>"

text \<open>
  \<^verbatim>\<open>ConvTransposeOptions<D>\<close>: its padding slot is an array of widths only; the type has
  no named padding policy.
\<close>

record convt_options =
  convt_in_channels :: int64
  convt_out_channels :: int64
  convt_kernel_size :: "int64 list"
  convt_stride :: "int64 list"
  convt_padding :: "int64 list"
  convt_output_padding :: "int64 list"
  convt_groups :: int64
  convt_bias :: bool
  convt_dilation :: "int64 list"
  convt_padding_mode :: padding_mode_t

definition ConvTransposeOptions ::
  "nat \<Rightarrow> int64 \<Rightarrow> int64 \<Rightarrow> int64 list \<Rightarrow> convt_options" where
  "ConvTransposeOptions D in_channels out_channels kernel_size =
     \<lparr>convt_in_channels = in_channels, convt_out_channels = out_channels,
      convt_kernel_size = kernel_size,
      convt_stride = ExpandingArray D 1,
      convt_padding = ExpandingArray D 0,
      convt_output_padding = ExpandingArray D 0,
      convt_groups = 1,
      convt_bias = True,
      convt_dilation = ExpandingArray D 1,
      convt_padding_mode = kZeros\<rparr>"

definition convt_set_padding_mode :: "padding_mode_t \<Rightarrow> convt_options \<Rightarrow> convt_options" where
  "convt_set_padding_mode m opts = opts\<lparr>convt_padding_mode := m\<rparr>"

section \<open>The fault boundary and the module wrapper\<close>

text \<open>
  Modelled from the spec: the macros \<^verbatim>\<open>CATCH\<close> and \<^verbatim>\<open>CATCH_RETURN_NNModule\<close> are declared
  outside this file. The spec: every exported function wraps its body in a catch
  boundary; on fault, the boundary records the fault's description in the process-wide
  last-error state and returns a null/default result rather than propagating the fault.

  \<open>CATCH stmt res last_error\<close> runs \<open>stmt\<close>, which assigns the variable whose value
  before the statement is \<open>res\<close>. A fault leaves that variable as it was and is stored
  in the last-error slot. The spec says nothing of the slot after a call without fault;
  it is left as it was, and no statement below depends on that.
\<close>

definition CATCH :: "'a outcome \<Rightarrow> 'a \<Rightarrow> fault option \<Rightarrow> ('a \<times> fault option) outcome" where
  "CATCH stmt res last_error =
     (case stmt of
        Ok r \<Rightarrow> Ok (r, last_error)
      | Throw e \<Rightarrow> Ok (res, Some e)
      | Undefined \<Rightarrow> Undefined)"

text \<open>
  \<^verbatim>\<open>CATCH_RETURN_NNModule(stmt)\<close> declares \<^verbatim>\<open>res\<close> as the null handle, runs \<open>stmt\<close>
  under the boundary and returns \<^verbatim>\<open>res\<close>. The statement may also store through
  \<^verbatim>\<open>outAsAnyModule\<close>, so the pointer travels with \<^verbatim>\<open>res\<close>.
\<close>

definition CATCH_RETURN_NNModule ::
  "('m ptr \<times> 'm ptr ptr) outcome \<Rightarrow> 'm ptr ptr \<Rightarrow> fault option
     \<Rightarrow> (('m ptr \<times> 'm ptr ptr) \<times> fault option) outcome" where
  "CATCH_RETURN_NNModule stmt outAsAnyModule last_error =
     CATCH stmt (nullptr, outAsAnyModule) last_error"

text \<open>
  Modelled from the spec: the helper \<^verbatim>\<open>create_module\<close> is declared outside this file.
  The spec: the result is a newly constructed module handle; if an out-parameter for a
  polymorphic view is supplied, it is also populated with a type-erased wrapper over the
  same module. \<open>T\<close> is the library's constructor of the module class, which may raise.
\<close>

definition create_module ::
  "('o \<Rightarrow> 'm outcome) \<Rightarrow> 'o \<Rightarrow> 'm ptr ptr \<Rightarrow> ('m ptr \<times> 'm ptr ptr) outcome" where
  "create_module T opts outAsAnyModule =
     and_then (T opts) (\<lambda>module.
       Ok (Ptr module,
           (case outAsAnyModule of nullptr \<Rightarrow> nullptr | Ptr _ \<Rightarrow> Ptr (Ptr module))))"

section \<open>Convolution constructors\<close>

text \<open>
  \<^verbatim>\<open>ApplyPaddingMode<T>\<close>: four independent tests in sequence. The template parameter's
  \<^verbatim>\<open>padding_mode\<close> setter is the first argument.
\<close>

definition ApplyPaddingMode :: "(padding_mode_t \<Rightarrow> 'T \<Rightarrow> 'T) \<Rightarrow> 'T \<Rightarrow> int64 \<Rightarrow> 'T" where
  "ApplyPaddingMode padding_mode opts padding =
     (let opts = (if padding = 0 then padding_mode kZeros opts else opts);
          opts = (if padding = 1 then padding_mode kReflect opts else opts);
          opts = (if padding = 2 then padding_mode kReplicate opts else opts);
          opts = (if padding = 3 then padding_mode kCircular opts else opts)
      in opts)"

text \<open>
  Each constructor is split in two: \<open>_opts\<close> is the options object \<^verbatim>\<open>opts\<close> as it stands
  when \<^verbatim>\<open>create_module\<close> is called, \<open>_ctor\<close> is the exported function. The first argument
  of a \<open>_ctor\<close> is the library's constructor of the module class it instantiates.
\<close>

definition THSNN_Conv1d_opts ::
  "int64 \<Rightarrow> int64 \<Rightarrow> int64 \<Rightarrow> int64 \<Rightarrow> int64 \<Rightarrow> int64 \<Rightarrow> int64 \<Rightarrow> int64 \<Rightarrow> bool \<Rightarrow> conv_options" where
  "THSNN_Conv1d_opts inputChannel outputChannel kernelSize stride padding dilation
       paddingMode groups bias =
     (let padd = Width (ExpandingArray 1 padding);
          padd = (if padding = - 1 then kSame else padd);
          opts = (ConvOptions 1 inputChannel outputChannel (ExpandingArray 1 kernelSize))
                   \<lparr>conv_stride := ExpandingArray 1 stride,
                    conv_padding := padd,
                    conv_dilation := ExpandingArray 1 dilation,
                    conv_groups := groups,
                    conv_bias := bias\<rparr>
      in ApplyPaddingMode conv_set_padding_mode opts paddingMode)"

definition THSNN_Conv1d_ctor ::
  "(conv_options \<Rightarrow> 'm outcome) \<Rightarrow>
   int64 \<Rightarrow> int64 \<Rightarrow> int64 \<Rightarrow> int64 \<Rightarrow> int64 \<Rightarrow> int64 \<Rightarrow> int64 \<Rightarrow> int64 \<Rightarrow> bool \<Rightarrow>
   'm ptr ptr \<Rightarrow> fault option \<Rightarrow> (('m ptr \<times> 'm ptr ptr) \<times> fault option) outcome" where
  "THSNN_Conv1d_ctor Conv1dImpl inputChannel outputChannel kernelSize stride padding dilation
       paddingMode groups bias outAsAnyModule last_error =
     CATCH_RETURN_NNModule
       (create_module Conv1dImpl
          (THSNN_Conv1d_opts inputChannel outputChannel kernelSize stride padding dilation
             paddingMode groups bias)
          outAsAnyModule)
       outAsAnyModule last_error"

definition THSNN_Conv2d_opts ::
  "int64 \<Rightarrow> int64 \<Rightarrow> int64 \<Rightarrow> int64 \<Rightarrow> int64 \<Rightarrow> int64 \<Rightarrow> int64 \<Rightarrow> int64 \<Rightarrow> bool \<Rightarrow> conv_options" where
  "THSNN_Conv2d_opts inputChannel outputChannel kernelSize stride padding dilation
       paddingMode groups bias =
     (let padd = (if padding = - 1 then kSame
                  else if padding = 0 then kValid
                  else Width (ExpandingArray 2 padding));
          opts = (ConvOptions 2 inputChannel outputChannel (ExpandingArray 2 kernelSize))
                   \<lparr>conv_stride := ExpandingArray 2 stride,
                    conv_padding := padd,
                    conv_dilation := ExpandingArray 2 dilation,
                    conv_groups := groups,
                    conv_bias := bias\<rparr>
      in ApplyPaddingMode conv_set_padding_mode opts paddingMode)"

definition THSNN_Conv2d_ctor ::
  "(conv_options \<Rightarrow> 'm outcome) \<Rightarrow>
   int64 \<Rightarrow> int64 \<Rightarrow> int64 \<Rightarrow> int64 \<Rightarrow> int64 \<Rightarrow> int64 \<Rightarrow> int64 \<Rightarrow> int64 \<Rightarrow> bool \<Rightarrow>
   'm ptr ptr \<Rightarrow> fault option \<Rightarrow> (('m ptr \<times> 'm ptr ptr) \<times> fault option) outcome" where
  "THSNN_Conv2d_ctor Conv2dImpl inputChannel outputChannel kernelSize stride padding dilation
       paddingMode groups bias outAsAnyModule last_error =
     CATCH_RETURN_NNModule
       (create_module Conv2dImpl
          (THSNN_Conv2d_opts inputChannel outputChannel kernelSize stride padding dilation
             paddingMode groups bias)
          outAsAnyModule)
       outAsAnyModule last_error"

definition THSNN_Conv2d_opts_1 ::
  "int64 \<Rightarrow> int64 \<Rightarrow> int64 \<Rightarrow> int64 \<Rightarrow> int64 \<Rightarrow> int64 \<Rightarrow> int64 \<Rightarrow> int64 \<Rightarrow> int64 \<Rightarrow> int64 \<Rightarrow>
   int64 \<Rightarrow> int64 \<Rightarrow> bool \<Rightarrow> conv_options" where
  "THSNN_Conv2d_opts_1 inputChannel outputChannel kernelX kernelY strideX strideY
       paddingX paddingY dilationX dilationY paddingMode groups bias =
     (let padd = (if paddingX = - 1 then kSame
                  else if paddingX = 0 then kValid
                  else Width [paddingX, paddingY]);
          opts = (ConvOptions 2 inputChannel outputChannel [kernelX, kernelY])
                   \<lparr>conv_stride := [strideX, strideY],
                    conv_padding := padd,
                    conv_dilation := [dilationX, dilationY],
                    conv_groups := groups,
                    conv_bias := bias\<rparr>
      in ApplyPaddingMode conv_set_padding_mode opts paddingMode)"

definition THSNN_Conv2d_ctor_1 ::
  "(conv_options \<Rightarrow> 'm outcome) \<Rightarrow>
   int64 \<Rightarrow> int64 \<Rightarrow> int64 \<Rightarrow> int64 \<Rightarrow> int64 \<Rightarrow> int64 \<Rightarrow> int64 \<Rightarrow> int64 \<Rightarrow> int64 \<Rightarrow> int64 \<Rightarrow>
   int64 \<Rightarrow> int64 \<Rightarrow> bool \<Rightarrow>
   'm ptr ptr \<Rightarrow> fault option \<Rightarrow> (('m ptr \<times> 'm ptr ptr) \<times> fault option) outcome" where
  "THSNN_Conv2d_ctor_1 Conv2dImpl inputChannel outputChannel kernelX kernelY strideX strideY
       paddingX paddingY dilationX dilationY paddingMode groups bias
       outAsAnyModule last_error =
     CATCH_RETURN_NNModule
       (create_module Conv2dImpl
          (THSNN_Conv2d_opts_1 inputChannel outputChannel kernelX kernelY strideX strideY
             paddingX paddingY dilationX dilationY paddingMode groups bias)
          outAsAnyModule)
       outAsAnyModule last_error"

definition THSNN_Conv3d_opts ::
  "int64 \<Rightarrow> int64 \<Rightarrow> int64 \<Rightarrow> int64 \<Rightarrow> int64 \<Rightarrow> int64 \<Rightarrow> int64 \<Rightarrow> int64 \<Rightarrow> bool \<Rightarrow> conv_options" where
  "THSNN_Conv3d_opts inputChannel outputChannel kernelSize stride padding dilation
       paddingMode groups bias =
     (let padd = (if padding = - 1 then kSame
                  else if padding = 0 then kValid
                  else Width (ExpandingArray 3 padding));
          opts = (ConvOptions 3 inputChannel outputChannel (ExpandingArray 3 kernelSize))
                   \<lparr>conv_stride := ExpandingArray 3 stride,
                    conv_padding := padd,
                    conv_dilation := ExpandingArray 3 dilation,
                    conv_groups := groups,
                    conv_bias := bias\<rparr>
      in ApplyPaddingMode conv_set_padding_mode opts paddingMode)"

definition THSNN_Conv3d_ctor ::
  "(conv_options \<Rightarrow> 'm outcome) \<Rightarrow>
   int64 \<Rightarrow> int64 \<Rightarrow> int64 \<Rightarrow> int64 \<Rightarrow> int64 \<Rightarrow> int64 \<Rightarrow> int64 \<Rightarrow> int64 \<Rightarrow> bool \<Rightarrow>
   'm ptr ptr \<Rightarrow> fault option \<Rightarrow> (('m ptr \<times> 'm ptr ptr) \<times> fault option) outcome" where
  "THSNN_Conv3d_ctor Conv3dImpl inputChannel outputChannel kernelSize stride padding dilation
       paddingMode groups bias outAsAnyModule last_error =
     CATCH_RETURN_NNModule
       (create_module Conv3dImpl
          (THSNN_Conv3d_opts inputChannel outputChannel kernelSize stride padding dilation
             paddingMode groups bias)
          outAsAnyModule)
       outAsAnyModule last_error"

definition THSNN_Conv3d_opts_1 ::
  "int64 \<Rightarrow> int64 \<Rightarrow> int64 \<Rightarrow> int64 \<Rightarrow> int64 \<Rightarrow> int64 \<Rightarrow> int64 \<Rightarrow> int64 \<Rightarrow> int64 \<Rightarrow> int64 \<Rightarrow>
   int64 \<Rightarrow> int64 \<Rightarrow> int64 \<Rightarrow> int64 \<Rightarrow> int64 \<Rightarrow> int64 \<Rightarrow> bool \<Rightarrow> conv_options" where
  "THSNN_Conv3d_opts_1 inputChannel outputChannel kernelX kernelY kernelZ
       strideX strideY strideZ paddingX paddingY paddingZ dilationX dilationY dilationZ
       paddingMode groups bias =
     (let padd = (if paddingX = - 1 then kSame
                  else if paddingX = 0 then kValid
                  else Width [paddingX, paddingY, paddingZ]);
          opts = (ConvOptions 3 inputChannel outputChannel [kernelX, kernelY, kernelZ])
                   \<lparr>conv_stride := [strideX, strideY, strideZ],
                    conv_padding := padd,
                    conv_dilation := [dilationX, dilationY, dilationZ],
                    conv_groups := groups,
                    conv_bias := bias\<rparr>
      in ApplyPaddingMode conv_set_padding_mode opts paddingMode)"

definition THSNN_Conv3d_ctor_1 ::
  "(conv_options \<Rightarrow> 'm outcome) \<Rightarrow>
   int64 \<Rightarrow> int64 \<Rightarrow> int64 \<Rightarrow> int64 \<Rightarrow> int64 \<Rightarrow> int64 \<Rightarrow> int64 \<Rightarrow> int64 \<Rightarrow> int64 \<Rightarrow> int64 \<Rightarrow>
   int64 \<Rightarrow> int64 \<Rightarrow> int64 \<Rightarrow> int64 \<Rightarrow> int64 \<Rightarrow> int64 \<Rightarrow> bool \<Rightarrow>
   'm ptr ptr \<Rightarrow> fault option \<Rightarrow> (('m ptr \<times> 'm ptr ptr) \<times> fault option) outcome" where
  "THSNN_Conv3d_ctor_1 Conv3dImpl inputChannel outputChannel kernelX kernelY kernelZ
       strideX strideY strideZ paddingX paddingY paddingZ dilationX dilationY dilationZ
       paddingMode groups bias outAsAnyModule last_error =
     CATCH_RETURN_NNModule
       (create_module Conv3dImpl
          (THSNN_Conv3d_opts_1 inputChannel outputChannel kernelX kernelY kernelZ
             strideX strideY strideZ paddingX paddingY paddingZ dilationX dilationY dilationZ
             paddingMode groups bias)
          outAsAnyModule)
       outAsAnyModule last_error"

subsection \<open>Transposed convolutions\<close>

text \<open>
  The three transposed constructors have the same body but for the dimension of the
  options class, which is the first argument of \<open>ConvTranspose_opts\<close>.
\<close>

definition ConvTranspose_opts ::
  "nat \<Rightarrow> int64 \<Rightarrow> int64 \<Rightarrow> int64 \<Rightarrow> int64 \<Rightarrow> int64 \<Rightarrow> int64 \<Rightarrow> int64 \<Rightarrow> int64 \<Rightarrow> int64 \<Rightarrow> bool
     \<Rightarrow> convt_options" where
  "ConvTranspose_opts D inputChannel outputChannel kernelSize stride padding output_padding
       dilation paddingMode groups bias =
     (let opts = (ConvTransposeOptions D inputChannel outputChannel (ExpandingArray D kernelSize))
                   \<lparr>convt_stride := ExpandingArray D stride,
                    convt_padding := ExpandingArray D padding,
                    convt_dilation := ExpandingArray D dilation,
                    convt_groups := groups,
                    convt_bias := bias,
                    convt_output_padding := ExpandingArray D output_padding\<rparr>
      in ApplyPaddingMode convt_set_padding_mode opts paddingMode)"

definition THSNN_ConvTranspose1d_opts ::
  "int64 \<Rightarrow> int64 \<Rightarrow> int64 \<Rightarrow> int64 \<Rightarrow> int64 \<Rightarrow> int64 \<Rightarrow> int64 \<Rightarrow> int64 \<Rightarrow> int64 \<Rightarrow> bool
     \<Rightarrow> convt_options" where
  "THSNN_ConvTranspose1d_opts = ConvTranspose_opts 1"

definition THSNN_ConvTranspose2d_opts ::
  "int64 \<Rightarrow> int64 \<Rightarrow> int64 \<Rightarrow> int64 \<Rightarrow> int64 \<Rightarrow> int64 \<Rightarrow> int64 \<Rightarrow> int64 \<Rightarrow> int64 \<Rightarrow> bool
     \<Rightarrow> convt_options" where
  "THSNN_ConvTranspose2d_opts = ConvTranspose_opts 2"

definition THSNN_ConvTranspose3d_opts ::
  "int64 \<Rightarrow> int64 \<Rightarrow> int64 \<Rightarrow> int64 \<Rightarrow> int64 \<Rightarrow> int64 \<Rightarrow> int64 \<Rightarrow> int64 \<Rightarrow> int64 \<Rightarrow> bool
     \<Rightarrow> convt_options" where
  "THSNN_ConvTranspose3d_opts = ConvTranspose_opts 3"

definition THSNN_ConvTranspose1d_ctor ::
  "(convt_options \<Rightarrow> 'm outcome) \<Rightarrow>
   int64 \<Rightarrow> int64 \<Rightarrow> int64 \<Rightarrow> int64 \<Rightarrow> int64 \<Rightarrow> int64 \<Rightarrow> int64 \<Rightarrow> int64 \<Rightarrow> int64 \<Rightarrow> bool \<Rightarrow>
   'm ptr ptr \<Rightarrow> fault option \<Rightarrow> (('m ptr \<times> 'm ptr ptr) \<times> fault option) outcome" where
  "THSNN_ConvTranspose1d_ctor ConvTranspose1dImpl inputChannel outputChannel kernelSize stride
       padding output_padding dilation paddingMode groups bias outAsAnyModule last_error =
     CATCH_RETURN_NNModule
       (create_module ConvTranspose1dImpl
          (THSNN_ConvTranspose1d_opts inputChannel outputChannel kernelSize stride padding
             output_padding dilation paddingMode groups bias)
          outAsAnyModule)
       outAsAnyModule last_error"

definition THSNN_ConvTranspose2d_ctor ::
  "(convt_options \<Rightarrow> 'm outcome) \<Rightarrow>
   int64 \<Rightarrow> int64 \<Rightarrow> int64 \<Rightarrow> int64 \<Rightarrow> int64 \<Rightarrow> int64 \<Rightarrow> int64 \<Rightarrow> int64 \<Rightarrow> int64 \<Rightarrow> bool \<Rightarrow>
   'm ptr ptr \<Rightarrow> fault option \<Rightarrow> (('m ptr \<times> 'm ptr ptr) \<times> fault option) outcome" where
  "THSNN_ConvTranspose2d_ctor ConvTranspose2dImpl inputChannel outputChannel kernelSize stride
       padding output_padding dilation paddingMode groups bias outAsAnyModule last_error =
     CATCH_RETURN_NNModule
       (create_module ConvTranspose2dImpl
          (THSNN_ConvTranspose2d_opts inputChannel outputChannel kernelSize stride padding
             output_padding dilation paddingMode groups bias)
          outAsAnyModule)
       outAsAnyModule last_error"

definition THSNN_ConvTranspose3d_ctor ::
  "(convt_options \<Rightarrow> 'm outcome) \<Rightarrow>
   int64 \<Rightarrow> int64 \<Rightarrow> int64 \<Rightarrow> int64 \<Rightarrow> int64 \<Rightarrow> int64 \<Rightarrow> int64 \<Rightarrow> int64 \<Rightarrow> int64 \<Rightarrow> bool \<Rightarrow>
   'm ptr ptr \<Rightarrow> fault option \<Rightarrow> (('m ptr \<times> 'm ptr ptr) \<times> fault option) outcome" where
  "THSNN_ConvTranspose3d_ctor ConvTranspose3dImpl inputChannel outputChannel kernelSize stride
       padding output_padding dilation paddingMode groups bias outAsAnyModule last_error =
     CATCH_RETURN_NNModule
       (create_module ConvTranspose3dImpl
          (THSNN_ConvTranspose3d_opts inputChannel outputChannel kernelSize stride padding
             output_padding dilation paddingMode groups bias)
          outAsAnyModule)
       outAsAnyModule last_error"

section \<open>Arrays received through pointers\<close>

text \<open>
  \<^verbatim>\<open>at::ArrayRef<int64_t>(data, n)\<close> is a pointer with a length; building it reads nothing.
  Converting it to \<^verbatim>\<open>ExpandingArray<D>\<close> first compares the length with \<open>D\<close> and raises
  when they differ, and only then copies \<open>D\<close> elements: that copy is undefined when the
  pointer is null or the buffer behind it is shorter. A length of C type \<^verbatim>\<open>int\<close> becomes
  a \<^verbatim>\<open>size_t\<close> by sign extension.
\<close>

definition ArrayRef :: "int64 list ptr \<Rightarrow> nat \<Rightarrow> int64 list ptr \<times> nat" where
  "ArrayRef data len = (data, len)"

definition size_t :: "c_int \<Rightarrow> nat" where
  "size_t n = unat (scast n :: 64 word)"

definition ExpandingArray_from :: "nat \<Rightarrow> int64 list ptr \<times> nat \<Rightarrow> int64 list outcome" where
  "ExpandingArray_from D values =
     (if snd values \<noteq> D then Throw (Expected_values D (snd values))
      else case fst values of
             nullptr \<Rightarrow> Undefined
           | Ptr xs \<Rightarrow> if D \<le> length xs then Ok (take D xs) else Undefined)"

section \<open>Pooling constructors\<close>

text \<open>
  \<^verbatim>\<open>AvgPoolOptions<D>\<close> and \<^verbatim>\<open>MaxPoolOptions<D>\<close> of the library: built from the kernel
  size, with the stride defaulting to the kernel size.
\<close>

record avgpool_options =
  avgpool_kernel_size :: "int64 list"
  avgpool_stride :: "int64 list"
  avgpool_padding :: "int64 list"
  avgpool_ceil_mode :: bool
  avgpool_count_include_pad :: bool
  avgpool_divisor_override :: "int64 option"

definition AvgPoolOptions :: "nat \<Rightarrow> int64 list \<Rightarrow> avgpool_options" where
  "AvgPoolOptions D kernel_size =
     \<lparr>avgpool_kernel_size = kernel_size,
      avgpool_stride = kernel_size,
      avgpool_padding = ExpandingArray D 0,
      avgpool_ceil_mode = False,
      avgpool_count_include_pad = True,
      avgpool_divisor_override = None\<rparr>"

record maxpool_options =
  maxpool_kernel_size :: "int64 list"
  maxpool_stride :: "int64 list"
  maxpool_padding :: "int64 list"
  maxpool_dilation :: "int64 list"
  maxpool_ceil_mode :: bool

definition MaxPoolOptions :: "nat \<Rightarrow> int64 list \<Rightarrow> maxpool_options" where
  "MaxPoolOptions D kernel_size =
     \<lparr>maxpool_kernel_size = kernel_size,
      maxpool_stride = kernel_size,
      maxpool_padding = ExpandingArray D 0,
      maxpool_dilation = ExpandingArray D 1,
      maxpool_ceil_mode = False\<rparr>"

definition THSNN_AvgPool1d_opts :: "int64 list ptr \<Rightarrow> int64 list ptr \<Rightarrow> avgpool_options outcome" where
  "THSNN_AvgPool1d_opts kernelSize stride =
     and_then (ExpandingArray_from 1 (ArrayRef kernelSize 1)) (\<lambda>kernel_size.
     let opts = AvgPoolOptions 1 kernel_size in
     if stride \<noteq> nullptr
     then and_then (ExpandingArray_from 1 (ArrayRef stride 1))
            (\<lambda>v. Ok (opts\<lparr>avgpool_stride := v\<rparr>))
     else Ok opts)"

definition THSNN_AvgPool1d_ctor ::
  "(avgpool_options \<Rightarrow> 'm outcome) \<Rightarrow> int64 list ptr \<Rightarrow> int64 list ptr \<Rightarrow>
   'm ptr ptr \<Rightarrow> fault option \<Rightarrow> (('m ptr \<times> 'm ptr ptr) \<times> fault option) outcome" where
  "THSNN_AvgPool1d_ctor AvgPool1dImpl kernelSize stride outAsAnyModule last_error =
     CATCH_RETURN_NNModule
       (and_then (THSNN_AvgPool1d_opts kernelSize stride)
          (\<lambda>opts. create_module AvgPool1dImpl opts outAsAnyModule))
       outAsAnyModule last_error"

definition THSNN_AvgPool2d_opts ::
  "int64 list ptr \<Rightarrow> c_int \<Rightarrow> int64 list ptr \<Rightarrow> c_int \<Rightarrow> avgpool_options outcome" where
  "THSNN_AvgPool2d_opts kernelSize kernelSizeLength stride strideLength =
     and_then (ExpandingArray_from 2 (ArrayRef kernelSize (size_t kernelSizeLength)))
       (\<lambda>kernel_size.
     let opts = AvgPoolOptions 2 kernel_size in
     if stride \<noteq> nullptr
     then and_then (ExpandingArray_from 2 (ArrayRef stride (size_t strideLength)))
            (\<lambda>v. Ok (opts\<lparr>avgpool_stride := v\<rparr>))
     else Ok opts)"

definition THSNN_AvgPool2d_ctor ::
  "(avgpool_options \<Rightarrow> 'm outcome) \<Rightarrow> int64 list ptr \<Rightarrow> c_int \<Rightarrow> int64 list ptr \<Rightarrow> c_int \<Rightarrow>
   'm ptr ptr \<Rightarrow> fault option \<Rightarrow> (('m ptr \<times> 'm ptr ptr) \<times> fault option) outcome" where
  "THSNN_AvgPool2d_ctor AvgPool2dImpl kernelSize kernelSizeLength stride strideLength
       outAsAnyModule last_error =
     CATCH_RETURN_NNModule
       (and_then (THSNN_AvgPool2d_opts kernelSize kernelSizeLength stride strideLength)
          (\<lambda>opts. create_module AvgPool2dImpl opts outAsAnyModule))
       outAsAnyModule last_error"

definition THSNN_AvgPool3d_opts ::
  "int64 list ptr \<Rightarrow> c_int \<Rightarrow> int64 list ptr \<Rightarrow> c_int \<Rightarrow> avgpool_options outcome" where
  "THSNN_AvgPool3d_opts kernelSize kernelSizeLength stride strideLength =
     and_then (ExpandingArray_from 3 (ArrayRef kernelSize (size_t kernelSizeLength)))
       (\<lambda>kernel_size.
     let opts = AvgPoolOptions 3 kernel_size in
     if stride \<noteq> nullptr
     then and_then (ExpandingArray_from 3 (ArrayRef stride (size_t strideLength)))
            (\<lambda>v. Ok (opts\<lparr>avgpool_stride := v\<rparr>))
     else Ok opts)"

definition THSNN_AvgPool3d_ctor ::
  "(avgpool_options \<Rightarrow> 'm outcome) \<Rightarrow> int64 list ptr \<Rightarrow> c_int \<Rightarrow> int64 list ptr \<Rightarrow> c_int \<Rightarrow>
   'm ptr ptr \<Rightarrow> fault option \<Rightarrow> (('m ptr \<times> 'm ptr ptr) \<times> fault option) outcome" where
  "THSNN_AvgPool3d_ctor AvgPool3dImpl kernelSize kernelSizeLength stride strideLength
       outAsAnyModule last_error =
     CATCH_RETURN_NNModule
       (and_then (THSNN_AvgPool3d_opts kernelSize kernelSizeLength stride strideLength)
          (\<lambda>opts. create_module AvgPool3dImpl opts outAsAnyModule))
       outAsAnyModule last_error"

definition THSNN_MaxPool1d_opts ::
  "int64 list ptr \<Rightarrow> int64 list ptr \<Rightarrow> int64 list ptr \<Rightarrow> int64 list ptr \<Rightarrow> bool
     \<Rightarrow> maxpool_options outcome" where
  "THSNN_MaxPool1d_opts kernelSize stride padding dilation ceil_mode =
     and_then (ExpandingArray_from 1 (ArrayRef kernelSize 1)) (\<lambda>kernel_size.
     and_then (Ok ((MaxPoolOptions 1 kernel_size)\<lparr>maxpool_ceil_mode := ceil_mode\<rparr>)) (\<lambda>opts.
     and_then
       (if stride \<noteq> nullptr
        then and_then (ExpandingArray_from 1 (ArrayRef stride 1))
               (\<lambda>v. Ok (opts\<lparr>maxpool_stride := v\<rparr>))
        else Ok opts) (\<lambda>opts.
     and_then
       (if padding \<noteq> nullptr
        then and_then (ExpandingArray_from 1 (ArrayRef padding 1))
               (\<lambda>v. Ok (opts\<lparr>maxpool_padding := v\<rparr>))
        else Ok opts) (\<lambda>opts.
     if dilation \<noteq> nullptr
     then and_then (ExpandingArray_from 1 (ArrayRef dilation 1))
            (\<lambda>v. Ok (opts\<lparr>maxpool_dilation := v\<rparr>))
     else Ok opts))))"

definition THSNN_MaxPool1d_ctor ::
  "(maxpool_options \<Rightarrow> 'm outcome) \<Rightarrow>
   int64 list ptr \<Rightarrow> int64 list ptr \<Rightarrow> int64 list ptr \<Rightarrow> int64 list ptr \<Rightarrow> bool \<Rightarrow>
   'm ptr ptr \<Rightarrow> fault option \<Rightarrow> (('m ptr \<times> 'm ptr ptr) \<times> fault option) outcome" where
  "THSNN_MaxPool1d_ctor MaxPool1dImpl kernelSize stride padding dilation ceil_mode
       outAsAnyModule last_error =
     CATCH_RETURN_NNModule
       (and_then (THSNN_MaxPool1d_opts kernelSize stride padding dilation ceil_mode)
          (\<lambda>opts. create_module MaxPool1dImpl opts outAsAnyModule))
       outAsAnyModule last_error"

definition THSNN_MaxPool2d_opts ::
  "int64 list ptr \<Rightarrow> c_int \<Rightarrow> int64 list ptr \<Rightarrow> c_int \<Rightarrow> int64 list ptr \<Rightarrow> c_int \<Rightarrow>
   int64 list ptr \<Rightarrow> c_int \<Rightarrow> bool \<Rightarrow> maxpool_options outcome" where
  "THSNN_MaxPool2d_opts kernelSize kernelSizeLength stride strideLength padding paddingLength
       dilation dilationLength ceil_mode =
     and_then (ExpandingArray_from 2 (ArrayRef kernelSize (size_t kernelSizeLength)))
       (\<lambda>kernel_size.
     and_then (Ok ((MaxPoolOptions 2 kernel_size)\<lparr>maxpool_ceil_mode := ceil_mode\<rparr>)) (\<lambda>opts.
     and_then
       (if stride \<noteq> nullptr
        then and_then (ExpandingArray_from 2 (ArrayRef stride (size_t strideLength)))
               (\<lambda>v. Ok (opts\<lparr>maxpool_stride := v\<rparr>))
        else Ok opts) (\<lambda>opts.
     and_then
       (if padding \<noteq> nullptr
        then and_then (ExpandingArray_from 2 (ArrayRef padding (size_t paddingLength)))
               (\<lambda>v. Ok (opts\<lparr>maxpool_padding := v\<rparr>))
        else Ok opts) (\<lambda>opts.
     if dilation \<noteq> nullptr
     then and_then (ExpandingArray_from 2 (ArrayRef dilation (size_t dilationLength)))
            (\<lambda>v. Ok (opts\<lparr>maxpool_dilation := v\<rparr>))
     else Ok opts))))"

definition THSNN_MaxPool2d_ctor ::
  "(maxpool_options \<Rightarrow> 'm outcome) \<Rightarrow>
   int64 list ptr \<Rightarrow> c_int \<Rightarrow> int64 list ptr \<Rightarrow> c_int \<Rightarrow> int64 list ptr \<Rightarrow> c_int \<Rightarrow>
   int64 list ptr \<Rightarrow> c_int \<Rightarrow> bool \<Rightarrow>
   'm ptr ptr \<Rightarrow> fault option \<Rightarrow> (('m ptr \<times> 'm ptr ptr) \<times> fault option) outcome" where
  "THSNN_MaxPool2d_ctor MaxPool2dImpl kernelSize kernelSizeLength stride strideLength
       padding paddingLength dilation dilationLength ceil_mode outAsAnyModule last_error =
     CATCH_RETURN_NNModule
       (and_then
          (THSNN_MaxPool2d_opts kernelSize kernelSizeLength stride strideLength
             padding paddingLength dilation dilationLength ceil_mode)
          (\<lambda>opts. create_module MaxPool2dImpl opts outAsAnyModule))
       outAsAnyModule last_error"

definition THSNN_MaxPool3d_opts ::
  "int64 list ptr \<Rightarrow> c_int \<Rightarrow> int64 list ptr \<Rightarrow> c_int \<Rightarrow> int64 list ptr \<Rightarrow> c_int \<Rightarrow>
   int64 list ptr \<Rightarrow> c_int \<Rightarrow> bool \<Rightarrow> maxpool_options outcome" where
  "THSNN_MaxPool3d_opts kernelSize kernelSizeLength stride strideLength padding paddingLength
       dilation dilationLength ceil_mode =
     and_then (ExpandingArray_from 3 (ArrayRef kernelSize (size_t kernelSizeLength)))
       (\<lambda>kernel_size.
     and_then (Ok ((MaxPoolOptions 3 kernel_size)\<lparr>maxpool_ceil_mode := ceil_mode\<rparr>)) (\<lambda>opts.
     and_then
       (if stride \<noteq> nullptr
        then and_then (ExpandingArray_from 3 (ArrayRef stride (size_t strideLength)))
               (\<lambda>v. Ok (opts\<lparr>maxpool_stride := v\<rparr>))
        else Ok opts) (\<lambda>opts.
     and_then
       (if padding \<noteq> nullptr
        then and_then (ExpandingArray_from 3 (ArrayRef padding (size_t paddingLength)))
               (\<lambda>v. Ok (opts\<lparr>maxpool_padding := v\<rparr>))
        else Ok opts) (\<lambda>opts.
     if dilation \<noteq> nullptr
     then and_then (ExpandingArray_from 3 (ArrayRef dilation (size_t dilationLength)))
            (\<lambda>v. Ok (opts\<lparr>maxpool_dilation := v\<rparr>))
     else Ok opts))))"

definition THSNN_MaxPool3d_ctor ::
  "(maxpool_options \<Rightarrow> 'm outcome) \<Rightarrow>
   int64 list ptr \<Rightarrow> c_int \<Rightarrow> int64 list ptr \<Rightarrow> c_int \<Rightarrow> int64 list ptr \<Rightarrow> c_int \<Rightarrow>
   int64 list ptr \<Rightarrow> c_int \<Rightarrow> bool \<Rightarrow>
   'm ptr ptr \<Rightarrow> fault option \<Rightarrow> (('m ptr \<times> 'm ptr ptr) \<times> fault option) outcome" where
  "THSNN_MaxPool3d_ctor MaxPool3dImpl kernelSize kernelSizeLength stride strideLength
       padding paddingLength dilation dilationLength ceil_mode outAsAnyModule last_error =
     CATCH_RETURN_NNModule
       (and_then
          (THSNN_MaxPool3d_opts kernelSize kernelSizeLength stride strideLength
             padding paddingLength dilation dilationLength ceil_mode)
          (\<lambda>opts. create_module MaxPool3dImpl opts outAsAnyModule))
       outAsAnyModule last_error"

subsection \<open>Adaptive pooling\<close>

text \<open>
  The library's adaptive pooling options hold one slot, the output size: an
  \<^verbatim>\<open>ExpandingArray<1>\<close> in one dimension, an array of optional elements in two and three.
\<close>

record 'e adaptivepool_options =
  output_size :: "'e list"

definition ExpandingArrayWithOptionalElem_from ::
  "nat \<Rightarrow> int64 list ptr \<times> nat \<Rightarrow> int64 option list outcome" where
  "ExpandingArrayWithOptionalElem_from D values =
     (if snd values \<noteq> D then Throw (Expected_values D (snd values))
      else case fst values of
             nullptr \<Rightarrow> Undefined
           | Ptr xs \<Rightarrow> if D \<le> length xs then Ok (map Some (take D xs)) else Undefined)"

definition THSNN_AdaptiveAvgPool1d_ctor ::
  "(int64 adaptivepool_options \<Rightarrow> 'm outcome) \<Rightarrow> int64 list ptr \<Rightarrow> c_int \<Rightarrow>
   'm ptr ptr \<Rightarrow> fault option \<Rightarrow> (('m ptr \<times> 'm ptr ptr) \<times> fault option) outcome" where
  "THSNN_AdaptiveAvgPool1d_ctor AdaptiveAvgPool1dImpl kernelSize kernelSizeLength outAsAnyModule last_error =
     CATCH_RETURN_NNModule
       (and_then (ExpandingArray_from 1 (ArrayRef kernelSize (size_t kernelSizeLength)))
          (\<lambda>v. create_module AdaptiveAvgPool1dImpl \<lparr>output_size = v\<rparr> outAsAnyModule))
       outAsAnyModule last_error"

definition THSNN_AdaptiveAvgPool2d_ctor ::
  "(int64 option adaptivepool_options \<Rightarrow> 'm outcome) \<Rightarrow> int64 list ptr \<Rightarrow> c_int \<Rightarrow>
   'm ptr ptr \<Rightarrow> fault option \<Rightarrow> (('m ptr \<times> 'm ptr ptr) \<times> fault option) outcome" where
  "THSNN_AdaptiveAvgPool2d_ctor AdaptiveAvgPool2dImpl kernelSize kernelSizeLength outAsAnyModule last_error =
     CATCH_RETURN_NNModule
       (and_then (ExpandingArrayWithOptionalElem_from 2 (ArrayRef kernelSize (size_t kernelSizeLength)))
          (\<lambda>v. create_module AdaptiveAvgPool2dImpl \<lparr>output_size = v\<rparr> outAsAnyModule))
       outAsAnyModule last_error"

definition THSNN_AdaptiveAvgPool3d_ctor ::
  "(int64 option adaptivepool_options \<Rightarrow> 'm outcome) \<Rightarrow> int64 list ptr \<Rightarrow> c_int \<Rightarrow>
   'm ptr ptr \<Rightarrow> fault option \<Rightarrow> (('m ptr \<times> 'm ptr ptr) \<times> fault option) outcome" where
  "THSNN_AdaptiveAvgPool3d_ctor AdaptiveAvgPool3dImpl kernelSize kernelSizeLength outAsAnyModule last_error =
     CATCH_RETURN_NNModule
       (and_then (ExpandingArrayWithOptionalElem_from 3 (ArrayRef kernelSize (size_t kernelSizeLength)))
          (\<lambda>v. create_module AdaptiveAvgPool3dImpl \<lparr>output_size = v\<rparr> outAsAnyModule))
       outAsAnyModule last_error"

definition THSNN_AdaptiveMaxPool1d_ctor ::
  "(int64 adaptivepool_options \<Rightarrow> 'm outcome) \<Rightarrow> int64 list ptr \<Rightarrow> c_int \<Rightarrow>
   'm ptr ptr \<Rightarrow> fault option \<Rightarrow> (('m ptr \<times> 'm ptr ptr) \<times> fault option) outcome" where
  "THSNN_AdaptiveMaxPool1d_ctor AdaptiveMaxPool1dImpl kernelSize kernelSizeLength outAsAnyModule last_error =
     CATCH_RETURN_NNModule
       (and_then (ExpandingArray_from 1 (ArrayRef kernelSize (size_t kernelSizeLength)))
          (\<lambda>v. create_module AdaptiveMaxPool1dImpl \<lparr>output_size = v\<rparr> outAsAnyModule))
       outAsAnyModule last_error"

definition THSNN_AdaptiveMaxPool2d_ctor ::
  "(int64 option adaptivepool_options \<Rightarrow> 'm outcome) \<Rightarrow> int64 list ptr \<Rightarrow> c_int \<Rightarrow>
   'm ptr ptr \<Rightarrow> fault option \<Rightarrow> (('m ptr \<times> 'm ptr ptr) \<times> fault option) outcome" where
  "THSNN_AdaptiveMaxPool2d_ctor AdaptiveMaxPool2dImpl kernelSize kernelSizeLength outAsAnyModule last_error =
     CATCH_RETURN_NNModule
       (and_then (ExpandingArrayWithOptionalElem_from 2 (ArrayRef kernelSize (size_t kernelSizeLength)))
          (\<lambda>v. create_module AdaptiveMaxPool2dImpl \<lparr>output_size = v\<rparr> outAsAnyModule))
       outAsAnyModule last_error"

definition THSNN_AdaptiveMaxPool3d_ctor ::
  "(int64 option adaptivepool_options \<Rightarrow> 'm outcome) \<Rightarrow> int64 list ptr \<Rightarrow> c_int \<Rightarrow>
   'm ptr ptr \<Rightarrow> fault option \<Rightarrow> (('m ptr \<times> 'm ptr ptr) \<times> fault option) outcome" where
  "THSNN_AdaptiveMaxPool3d_ctor AdaptiveMaxPool3dImpl kernelSize kernelSizeLength outAsAnyModule last_error =
     CATCH_RETURN_NNModule
       (and_then (ExpandingArrayWithOptionalElem_from 3 (ArrayRef kernelSize (size_t kernelSizeLength)))
          (\<lambda>v. create_module AdaptiveMaxPool3dImpl \<lparr>output_size = v\<rparr> outAsAnyModule))
       outAsAnyModule last_error"

section \<open>Padding constructors\<close>

text \<open>
  The library's zero, reflection and replication padding options for \<open>D\<close> dimensions
  hold one slot of \<open>2 * D\<close> widths; the constant padding options add the fill value.
  The fill value is a \<^verbatim>\<open>double\<close> that the shim only passes on, so its type is left open.
\<close>

record pad_options =
  pad_padding :: "int64 list"

definition PadOptions :: "nat \<Rightarrow> int64 \<Rightarrow> pad_options" where
  "PadOptions D padding = \<lparr>pad_padding = ExpandingArray (D * 2) padding\<rparr>"

record 'v constantpad_options =
  constantpad_padding :: "int64 list"
  constantpad_value :: 'v

definition ConstantPadOptions :: "nat \<Rightarrow> int64 \<Rightarrow> 'v \<Rightarrow> 'v constantpad_options" where
  "ConstantPadOptions D padding v =
     \<lparr>constantpad_padding = ExpandingArray (D * 2) padding, constantpad_value = v\<rparr>"

definition THSNN_ZeroPad2d_ctor ::
  "(pad_options \<Rightarrow> 'm outcome) \<Rightarrow> int64 \<Rightarrow>
   'm ptr ptr \<Rightarrow> fault option \<Rightarrow> (('m ptr \<times> 'm ptr ptr) \<times> fault option) outcome" where
  "THSNN_ZeroPad2d_ctor ZeroPad2dImpl padding outAsAnyModule last_error =
     CATCH_RETURN_NNModule
       (create_module ZeroPad2dImpl (PadOptions 2 padding) outAsAnyModule)
       outAsAnyModule last_error"

definition THSNN_ConstantPad1d_ctor ::
  "('v constantpad_options \<Rightarrow> 'm outcome) \<Rightarrow> 'v \<Rightarrow> int64 \<Rightarrow>
   'm ptr ptr \<Rightarrow> fault option \<Rightarrow> (('m ptr \<times> 'm ptr ptr) \<times> fault option) outcome" where
  "THSNN_ConstantPad1d_ctor ConstantPad1dImpl v padding outAsAnyModule last_error =
     CATCH_RETURN_NNModule
       (create_module ConstantPad1dImpl (ConstantPadOptions 1 padding v) outAsAnyModule)
       outAsAnyModule last_error"

definition THSNN_ConstantPad2d_ctor ::
  "('v constantpad_options \<Rightarrow> 'm outcome) \<Rightarrow> 'v \<Rightarrow> int64 \<Rightarrow>
   'm ptr ptr \<Rightarrow> fault option \<Rightarrow> (('m ptr \<times> 'm ptr ptr) \<times> fault option) outcome" where
  "THSNN_ConstantPad2d_ctor ConstantPad2dImpl v padding outAsAnyModule last_error =
     CATCH_RETURN_NNModule
       (create_module ConstantPad2dImpl (ConstantPadOptions 2 padding v) outAsAnyModule)
       outAsAnyModule last_error"

definition THSNN_ConstantPad3d_ctor ::
  "('v constantpad_options \<Rightarrow> 'm outcome) \<Rightarrow> 'v \<Rightarrow> int64 \<Rightarrow>
   'm ptr ptr \<Rightarrow> fault option \<Rightarrow> (('m ptr \<times> 'm ptr ptr) \<times> fault option) outcome" where
  "THSNN_ConstantPad3d_ctor ConstantPad3dImpl v padding outAsAnyModule last_error =
     CATCH_RETURN_NNModule
       (create_module ConstantPad3dImpl (ConstantPadOptions 3 padding v) outAsAnyModule)
       outAsAnyModule last_error"

definition THSNN_ReplicationPad1d_ctor ::
  "(pad_options \<Rightarrow> 'm outcome) \<Rightarrow> int64 \<Rightarrow>
   'm ptr ptr \<Rightarrow> fault option \<Rightarrow> (('m ptr \<times> 'm ptr ptr) \<times> fault option) outcome" where
  "THSNN_ReplicationPad1d_ctor ReplicationPad1dImpl padding outAsAnyModule last_error =
     CATCH_RETURN_NNModule
       (create_module ReplicationPad1dImpl (PadOptions 1 padding) outAsAnyModule)
       outAsAnyModule last_error"

definition THSNN_ReplicationPad2d_ctor ::
  "(pad_options \<Rightarrow> 'm outcome) \<Rightarrow> int64 \<Rightarrow>
   'm ptr ptr \<Rightarrow> fault option \<Rightarrow> (('m ptr \<times> 'm ptr ptr) \<times> fault option) outcome" where
  "THSNN_ReplicationPad2d_ctor ReplicationPad2dImpl padding outAsAnyModule last_error =
     CATCH_RETURN_NNModule
       (create_module ReplicationPad2dImpl (PadOptions 2 padding) outAsAnyModule)
       outAsAnyModule last_error"

definition THSNN_ReplicationPad3d_ctor ::
  "(pad_options \<Rightarrow> 'm outcome) \<Rightarrow> int64 \<Rightarrow>
   'm ptr ptr \<Rightarrow> fault option \<Rightarrow> (('m ptr \<times> 'm ptr ptr) \<times> fault option) outcome" where
  "THSNN_ReplicationPad3d_ctor ReplicationPad3dImpl padding outAsAnyModule last_error =
     CATCH_RETURN_NNModule
       (create_module ReplicationPad3dImpl (PadOptions 3 padding) outAsAnyModule)
       outAsAnyModule last_error"

definition THSNN_ReflectionPad1d_ctor ::
  "(pad_options \<Rightarrow> 'm outcome) \<Rightarrow> int64 \<Rightarrow>
   'm ptr ptr \<Rightarrow> fault option \<Rightarrow> (('m ptr \<times> 'm ptr ptr) \<times> fault option) outcome" where
  "THSNN_ReflectionPad1d_ctor ReflectionPad1dImpl padding outAsAnyModule last_error =
     CATCH_RETURN_NNModule
       (create_module ReflectionPad1dImpl (PadOptions 1 padding) outAsAnyModule)
       outAsAnyModule last_error"

definition THSNN_ReflectionPad2d_ctor ::
  "(pad_options \<Rightarrow> 'm outcome) \<Rightarrow> int64 \<Rightarrow>
   'm ptr ptr \<Rightarrow> fault option \<Rightarrow> (('m ptr \<times> 'm ptr ptr) \<times> fault option) outcome" where
  "THSNN_ReflectionPad2d_ctor ReflectionPad2dImpl padding outAsAnyModule last_error =
     CATCH_RETURN_NNModule
       (create_module ReflectionPad2dImpl (PadOptions 2 padding) outAsAnyModule)
       outAsAnyModule last_error"

definition THSNN_ReflectionPad3d_ctor ::
  "(pad_options \<Rightarrow> 'm outcome) \<Rightarrow> int64 \<Rightarrow>
   'm ptr ptr \<Rightarrow> fault option \<Rightarrow> (('m ptr \<times> 'm ptr ptr) \<times> fault option) outcome" where
  "THSNN_ReflectionPad3d_ctor ReflectionPad3dImpl padding outAsAnyModule last_error =
     CATCH_RETURN_NNModule
       (create_module ReflectionPad3dImpl (PadOptions 3 padding) outAsAnyModule)
       outAsAnyModule last_error"

section \<open>Forward with indices\<close>

text \<open>
  A library tensor value (\<^verbatim>\<open>at::Tensor\<close>) is \<open>Some t\<close>, or \<open>None\<close> when it is the
  default-constructed, undefined tensor. A tensor handle is a pointer to a defined tensor.

  Modelled from the spec: the helper \<^verbatim>\<open>ResultTensor\<close>, which wraps a tensor for transit, is
  declared outside this file. The spec: no tensor handle is returned on failure (a null
  output handle), and the adapter only wraps the reference.
\<close>

definition ResultTensor :: "'t option \<Rightarrow> 't ptr" where
  "ResultTensor res = (case res of None \<Rightarrow> nullptr | Some t \<Rightarrow> Ptr t)"

text \<open>
  The first argument is the library's computation
  \<^verbatim>\<open>(*module)->as<torch::nn::MaxPoolNd>()->forward_with_indices(*tensor)\<close> on the module and
  the tensor behind the two handles. The result is the returned handle, the \<^verbatim>\<open>indices\<close>
  pointer with its pointee after the call, and the last-error slot.
\<close>

definition THSNN_MaxPool1d_forward_with_indices ::
  "('m \<Rightarrow> 't \<Rightarrow> ('t \<times> 't) outcome) \<Rightarrow> 'm ptr \<Rightarrow> 't ptr \<Rightarrow> 't ptr ptr \<Rightarrow> fault option
     \<Rightarrow> ('t ptr \<times> 't ptr ptr \<times> fault option) outcome" where
  "THSNN_MaxPool1d_forward_with_indices MaxPool1d_forward_with_indices module tensor indices
       last_error =
     (let res = (None, None) in
      and_then
        (CATCH
           (case module of
              nullptr \<Rightarrow> Undefined
            | Ptr m \<Rightarrow>
                (case tensor of
                   nullptr \<Rightarrow> Undefined
                 | Ptr t \<Rightarrow>
                     and_then (MaxPool1d_forward_with_indices m t)
                       (\<lambda>r. Ok (Some (fst r), Some (snd r)))))
           res last_error)
        (\<lambda>(res, last_error).
           case indices of
             nullptr \<Rightarrow> Undefined
           | Ptr _ \<Rightarrow> Ok (ResultTensor (fst res), Ptr (ResultTensor (snd res)), last_error)))"

definition THSNN_MaxPool2d_forward_with_indices ::
  "('m \<Rightarrow> 't \<Rightarrow> ('t \<times> 't) outcome) \<Rightarrow> 'm ptr \<Rightarrow> 't ptr \<Rightarrow> 't ptr ptr \<Rightarrow> fault option
     \<Rightarrow> ('t ptr \<times> 't ptr ptr \<times> fault option) outcome" where
  "THSNN_MaxPool2d_forward_with_indices MaxPool2d_forward_with_indices module tensor indices
       last_error =
     (let res = (None, None) in
      and_then
        (CATCH
           (case module of
              nullptr \<Rightarrow> Undefined
            | Ptr m \<Rightarrow>
                (case tensor of
                   nullptr \<Rightarrow> Undefined
                 | Ptr t \<Rightarrow>
                     and_then (MaxPool2d_forward_with_indices m t)
                       (\<lambda>r. Ok (Some (fst r), Some (snd r)))))
           res last_error)
        (\<lambda>(res, last_error).
           case indices of
             nullptr \<Rightarrow> Undefined
           | Ptr _ \<Rightarrow> Ok (ResultTensor (fst res), Ptr (ResultTensor (snd res)), last_error)))"

definition THSNN_MaxPool3d_forward_with_indices ::
  "('m \<Rightarrow> 't \<Rightarrow> ('t \<times> 't) outcome) \<Rightarrow> 'm ptr \<Rightarrow> 't ptr \<Rightarrow> 't ptr ptr \<Rightarrow> fault option
     \<Rightarrow> ('t ptr \<times> 't ptr ptr \<times> fault option) outcome" where
  "THSNN_MaxPool3d_forward_with_indices MaxPool3d_forward_with_indices module tensor indices
       last_error =
     (let res = (None, None) in
      and_then
        (CATCH
           (case module of
              nullptr \<Rightarrow> Undefined
            | Ptr m \<Rightarrow>
                (case tensor of
                   nullptr \<Rightarrow> Undefined
                 | Ptr t \<Rightarrow>
                     and_then (MaxPool3d_forward_with_indices m t)
                       (\<lambda>r. Ok (Some (fst r), Some (snd r)))))
           res last_error)
        (\<lambda>(res, last_error).
           case indices of
             nullptr \<Rightarrow> Undefined
           | Ptr _ \<Rightarrow> Ok (ResultTensor (fst res), Ptr (ResultTensor (snd res)), last_error)))"

section \<open>Weight and bias accessors\<close>

text \<open>
  A convolution module of the library carries its class and its two parameter tensors;
  the bias is undefined when the module was built without one.
\<close>

datatype conv_class =
  Conv1d | Conv2d | Conv3d | ConvTranspose1d | ConvTranspose2d | ConvTranspose3d

record 't conv_module =
  module_class :: conv_class
  module_weight :: "'t option"
  module_bias :: "'t option"

text \<open>
  Modelled from the spec: the helpers \<^verbatim>\<open>get_weight\<close>, \<^verbatim>\<open>set_weight\<close>, \<^verbatim>\<open>get_bias\<close> and
  \<^verbatim>\<open>set_bias\<close> are declared outside this file. The spec: get returns the current parameter
  tensor handle (shared ownership with the module); set replaces the module's parameter
  tensor with the supplied handle. The template parameter \<open>T\<close> is the module class the
  handle is cast to; a null handle or a module of another class cannot be dereferenced.
  A setter returns the module as it stands after the call.
\<close>

definition get_weight :: "conv_class \<Rightarrow> 't conv_module ptr \<Rightarrow> 't ptr outcome" where
  "get_weight T module =
     (case module of
        nullptr \<Rightarrow> Undefined
      | Ptr m \<Rightarrow> if module_class m = T then Ok (ResultTensor (module_weight m)) else Undefined)"

definition set_weight ::
  "conv_class \<Rightarrow> 't conv_module ptr \<Rightarrow> 't ptr \<Rightarrow> 't conv_module outcome" where
  "set_weight T module weights =
     (case module of
        nullptr \<Rightarrow> Undefined
      | Ptr m \<Rightarrow>
          if module_class m = T
          then (case weights of
                  nullptr \<Rightarrow> Undefined
                | Ptr w \<Rightarrow> Ok (m\<lparr>module_weight := Some w\<rparr>))
          else Undefined)"

definition get_bias :: "conv_class \<Rightarrow> 't conv_module ptr \<Rightarrow> 't ptr outcome" where
  "get_bias T module =
     (case module of
        nullptr \<Rightarrow> Undefined
      | Ptr m \<Rightarrow> if module_class m = T then Ok (ResultTensor (module_bias m)) else Undefined)"

definition set_bias ::
  "conv_class \<Rightarrow> 't conv_module ptr \<Rightarrow> 't ptr \<Rightarrow> 't conv_module outcome" where
  "set_bias T module bias =
     (case module of
        nullptr \<Rightarrow> Undefined
      | Ptr m \<Rightarrow>
          if module_class m = T
          then (case bias of
                  nullptr \<Rightarrow> Undefined
                | Ptr b \<Rightarrow> Ok (m\<lparr>module_bias := Some b\<rparr>))
          else Undefined)"

definition THSNN_Conv1d_bias :: "'t conv_module ptr \<Rightarrow> 't ptr outcome" where
  "THSNN_Conv1d_bias module = get_bias Conv1d module"

definition THSNN_Conv1d_set_bias :: "'t conv_module ptr \<Rightarrow> 't ptr \<Rightarrow> 't conv_module outcome" where
  "THSNN_Conv1d_set_bias module bias = set_bias Conv1d module bias"

definition THSNN_Conv1d_weight :: "'t conv_module ptr \<Rightarrow> 't ptr outcome" where
  "THSNN_Conv1d_weight module = get_weight Conv1d module"

definition THSNN_Conv1d_set_weight :: "'t conv_module ptr \<Rightarrow> 't ptr \<Rightarrow> 't conv_module outcome" where
  "THSNN_Conv1d_set_weight module weight = set_weight Conv1d module weight"

definition THSNN_Conv2d_bias :: "'t conv_module ptr \<Rightarrow> 't ptr outcome" where
  "THSNN_Conv2d_bias module = get_bias Conv2d module"

definition THSNN_Conv2d_set_bias :: "'t conv_module ptr \<Rightarrow> 't ptr \<Rightarrow> 't conv_module outcome" where
  "THSNN_Conv2d_set_bias module bias = set_bias Conv2d module bias"

definition THSNN_Conv2d_weight :: "'t conv_module ptr \<Rightarrow> 't ptr outcome" where
  "THSNN_Conv2d_weight module = get_weight Conv2d module"

definition THSNN_Conv2d_set_weight :: "'t conv_module ptr \<Rightarrow> 't ptr \<Rightarrow> 't conv_module outcome" where
  "THSNN_Conv2d_set_weight module weight = set_weight Conv2d module weight"

definition THSNN_Conv3d_bias :: "'t conv_module ptr \<Rightarrow> 't ptr outcome" where
  "THSNN_Conv3d_bias module = get_bias Conv3d module"

definition THSNN_Conv3d_set_bias :: "'t conv_module ptr \<Rightarrow> 't ptr \<Rightarrow> 't conv_module outcome" where
  "THSNN_Conv3d_set_bias module bias = set_bias Conv3d module bias"

definition THSNN_Conv3d_weight :: "'t conv_module ptr \<Rightarrow> 't ptr outcome" where
  "THSNN_Conv3d_weight module = get_weight Conv3d module"

definition THSNN_Conv3d_set_weight :: "'t conv_module ptr \<Rightarrow> 't ptr \<Rightarrow> 't conv_module outcome" where
  "THSNN_Conv3d_set_weight module weight = set_weight Conv3d module weight"

definition THSNN_ConvTranspose1d_bias :: "'t conv_module ptr \<Rightarrow> 't ptr outcome" where
  "THSNN_ConvTranspose1d_bias module = get_bias ConvTranspose1d module"

definition THSNN_ConvTranspose1d_set_bias :: "'t conv_module ptr \<Rightarrow> 't ptr \<Rightarrow> 't conv_module outcome" where
  "THSNN_ConvTranspose1d_set_bias module bias = set_bias ConvTranspose1d module bias"

definition THSNN_ConvTranspose1d_weight :: "'t conv_module ptr \<Rightarrow> 't ptr outcome" where
  "THSNN_ConvTranspose1d_weight module = get_weight ConvTranspose1d module"

definition THSNN_ConvTranspose1d_set_weight :: "'t conv_module ptr \<Rightarrow> 't ptr \<Rightarrow> 't conv_module outcome" where
  "THSNN_ConvTranspose1d_set_weight module weight = set_weight ConvTranspose1d module weight"

definition THSNN_ConvTranspose2d_bias :: "'t conv_module ptr \<Rightarrow> 't ptr outcome" where
  "THSNN_ConvTranspose2d_bias module = get_bias ConvTranspose2d module"

definition THSNN_ConvTranspose2d_set_bias :: "'t conv_module ptr \<Rightarrow> 't ptr \<Rightarrow> 't conv_module outcome" where
  "THSNN_ConvTranspose2d_set_bias module bias = set_bias ConvTranspose2d module bias"

definition THSNN_ConvTranspose2d_weight :: "'t conv_module ptr \<Rightarrow> 't ptr outcome" where
  "THSNN_ConvTranspose2d_weight module = get_weight ConvTranspose2d module"

definition THSNN_ConvTranspose2d_set_weight :: "'t conv_module ptr \<Rightarrow> 't ptr \<Rightarrow> 't conv_module outcome" where
  "THSNN_ConvTranspose2d_set_weight module weight = set_weight ConvTranspose2d module weight"

definition THSNN_ConvTranspose3d_bias :: "'t conv_module ptr \<Rightarrow> 't ptr outcome" where
  "THSNN_ConvTranspose3d_bias module = get_bias ConvTranspose3d module"

definition THSNN_ConvTranspose3d_set_bias :: "'t conv_module ptr \<Rightarrow> 't ptr \<Rightarrow> 't conv_module outcome" where
  "THSNN_ConvTranspose3d_set_bias module bias = set_bias ConvTranspose3d module bias"

definition THSNN_ConvTranspose3d_weight :: "'t conv_module ptr \<Rightarrow> 't ptr outcome" where
  "THSNN_ConvTranspose3d_weight module = get_weight ConvTranspose3d module"

definition THSNN_ConvTranspose3d_set_weight :: "'t conv_module ptr \<Rightarrow> 't ptr \<Rightarrow> 't conv_module outcome" where
  "THSNN_ConvTranspose3d_set_weight module weight = set_weight ConvTranspose3d module weight"

section \<open>Properties of the convolution constructors\<close>

subsection \<open>Auxiliary facts\<close>

lemmas conv_opts_defs =
  THSNN_Conv1d_opts_def THSNN_Conv2d_opts_def THSNN_Conv2d_opts_1_def
  THSNN_Conv3d_opts_def THSNN_Conv3d_opts_1_def

lemmas convt_opts_defs =
  THSNN_ConvTranspose1d_opts_def THSNN_ConvTranspose2d_opts_def
  THSNN_ConvTranspose3d_opts_def ConvTranspose_opts_def

lemmas conv_ctor_defs =
  THSNN_Conv1d_ctor_def THSNN_Conv2d_ctor_def THSNN_Conv2d_ctor_1_def
  THSNN_Conv3d_ctor_def THSNN_Conv3d_ctor_1_def
  THSNN_ConvTranspose1d_ctor_def THSNN_ConvTranspose2d_ctor_def
  THSNN_ConvTranspose3d_ctor_def

lemma ExpandingArray_simps:
  "ExpandingArray 1 v = [v]" "ExpandingArray (Suc 0) v = [v]"
  "ExpandingArray 2 v = [v, v]" "ExpandingArray 3 v = [v, v, v]"
  by (simp_all add: ExpandingArray_def numeral_2_eq_2 numeral_3_eq_3)

lemma ApplyPaddingMode_conv:
  "ApplyPaddingMode conv_set_padding_mode opts pm =
     opts\<lparr>conv_padding_mode :=
       (if pm = 0 then kZeros else if pm = 1 then kReflect
        else if pm = 2 then kReplicate else if pm = 3 then kCircular
        else conv_padding_mode opts)\<rparr>"
  by (simp add: ApplyPaddingMode_def conv_set_padding_mode_def)

lemma ApplyPaddingMode_convt:
  "ApplyPaddingMode convt_set_padding_mode opts pm =
     opts\<lparr>convt_padding_mode :=
       (if pm = 0 then kZeros else if pm = 1 then kReflect
        else if pm = 2 then kReplicate else if pm = 3 then kCircular
        else convt_padding_mode opts)\<rparr>"
  by (simp add: ApplyPaddingMode_def convt_set_padding_mode_def)

lemmas opts_simps =
  conv_opts_defs convt_opts_defs ApplyPaddingMode_conv ApplyPaddingMode_convt
  ExpandingArray_simps Let_def

subsection \<open>Padding sentinels\<close>

text \<open>
  Claim C1, as amended. The padding sentinels are not handled alike by all constructors:
  \<^item> \<^verbatim>\<open>Conv2d\<close> and \<^verbatim>\<open>Conv3d\<close>, in both overloads: \<open>-1\<close> selects the policy "same", \<open>0\<close>
    the policy "valid", any other value is a width (in the per-axis overloads the test
    is on the X value);
  \<^item> \<^verbatim>\<open>Conv1d\<close>: only \<open>-1\<close> is a sentinel and selects "same"; any other value, \<open>0\<close>
    included, is a width;
  \<^item> the transposed constructors have no sentinel: the padding is always a width, also
    when it is \<open>-1\<close> or \<open>0\<close>.
\<close>

theorem padding_sentinel_by_constructor:
  "conv_padding (THSNN_Conv1d_opts ic oc k s p d pm g b) =
     (if p = - 1 then kSame else Width [p])
   \<and> conv_padding (THSNN_Conv2d_opts ic oc k s p d pm g b) =
     (if p = - 1 then kSame else if p = 0 then kValid else Width [p, p])
   \<and> conv_padding (THSNN_Conv2d_opts_1 ic oc kx ky sx sy px py dx dy pm g b) =
     (if px = - 1 then kSame else if px = 0 then kValid else Width [px, py])
   \<and> conv_padding (THSNN_Conv3d_opts ic oc k s p d pm g b) =
     (if p = - 1 then kSame else if p = 0 then kValid else Width [p, p, p])
   \<and> conv_padding
       (THSNN_Conv3d_opts_1 ic oc kx ky kz sx sy sz px py pz dx dy dz pm g b) =
     (if px = - 1 then kSame else if px = 0 then kValid else Width [px, py, pz])
   \<and> convt_padding (THSNN_ConvTranspose1d_opts ic oc k s p op d pm g b) = [p]
   \<and> convt_padding (THSNN_ConvTranspose2d_opts ic oc k s p op d pm g b) = [p, p]
   \<and> convt_padding (THSNN_ConvTranspose3d_opts ic oc k s p op d pm g b) = [p, p, p]"
  by (simp add: opts_simps)

theorem padding_sentinel_by_constructor_witness:
  "conv_padding (THSNN_Conv1d_opts 1 1 3 1 (- 1) 1 0 1 True) = kSame
   \<and> conv_padding (THSNN_Conv2d_opts 1 1 3 1 (- 1) 1 0 1 True) = kSame
   \<and> conv_padding (THSNN_Conv2d_opts_1 1 1 3 3 1 1 (- 1) 5 1 1 0 1 True) = kSame
   \<and> conv_padding (THSNN_Conv3d_opts 1 1 3 1 (- 1) 1 0 1 True) = kSame
   \<and> conv_padding (THSNN_Conv3d_opts_1 1 1 3 3 3 1 1 1 (- 1) 5 6 1 1 1 0 1 True) = kSame
   \<and> convt_padding (THSNN_ConvTranspose1d_opts 1 1 3 1 (- 1) 0 1 0 1 True) = [- 1]
   \<and> convt_padding (THSNN_ConvTranspose2d_opts 1 1 3 1 (- 1) 0 1 0 1 True) = [- 1, - 1]
   \<and> convt_padding (THSNN_ConvTranspose3d_opts 1 1 3 1 (- 1) 0 1 0 1 True) = [- 1, - 1, - 1]"
  using padding_sentinel_by_constructor
    [where ic = 1 and oc = 1 and k = 3 and s = 1 and p = "- 1" and d = 1 and pm = 0 and g = 1
       and b = True and kx = 3 and ky = 3 and kz = 3 and sx = 1 and sy = 1 and sz = 1
       and px = "- 1" and py = 5 and pz = 6 and dx = 1 and dy = 1 and dz = 1 and op = 0]
  by simp

text \<open>
  Claim C1 as stated fails: \<^verbatim>\<open>THSNN_ConvTranspose1d_ctor\<close> hands \<open>-1\<close> and \<open>0\<close> to the library
  as widths, and \<^verbatim>\<open>THSNN_Conv1d_ctor\<close> hands \<open>0\<close> on as the width \<open>0\<close>, not as "valid".
\<close>

theorem transposed_padding_sentinel_counterexample:
  "convt_padding (THSNN_ConvTranspose1d_opts 1 1 3 1 (- 1) 0 1 0 1 True) = [- 1]
   \<and> convt_padding (THSNN_ConvTranspose1d_opts 1 1 3 1 0 0 1 0 1 True) = [0]
   \<and> conv_padding (THSNN_Conv1d_opts 1 1 3 1 0 1 0 1 True) = Width [0]
   \<and> conv_padding (THSNN_Conv1d_opts 1 1 3 1 0 1 0 1 True) \<noteq> kValid"
  by (simp add: opts_simps)

subsection \<open>Per-axis overloads\<close>

text \<open>
  Claim C4. With equal values on all axes for kernel, stride, padding and dilation, a
  per-axis overload (\<^verbatim>\<open>THSNN_Conv2d_ctor_1\<close>, \<^verbatim>\<open>THSNN_Conv3d_ctor_1\<close>) builds the same options
  object as the single-scalar constructor with those values, so the library's module
  constructor receives the same argument and the call returns the same module, the same
  view and the same error state. The library's constructor is taken as a function of
  the options it is given (two constructions at the same state of the library).
\<close>

theorem per_axis_equal_values_same_module:
  "THSNN_Conv2d_opts_1 ic oc k k s s p p d d pm g b = THSNN_Conv2d_opts ic oc k s p d pm g b
   \<and> THSNN_Conv3d_opts_1 ic oc k k k s s s p p p d d d pm g b =
       THSNN_Conv3d_opts ic oc k s p d pm g b
   \<and> THSNN_Conv2d_ctor_1 Conv2dImpl ic oc k k s s p p d d pm g b out le =
       THSNN_Conv2d_ctor Conv2dImpl ic oc k s p d pm g b out le
   \<and> THSNN_Conv3d_ctor_1 Conv3dImpl ic oc k k k s s s p p p d d d pm g b out le =
       THSNN_Conv3d_ctor Conv3dImpl ic oc k s p d pm g b out le"
  by (simp add: conv_ctor_defs conv_opts_defs ExpandingArray_simps)

theorem per_axis_equal_values_same_module_witness:
  "THSNN_Conv2d_ctor_1 Ok 1 4 3 3 2 2 1 1 1 1 2 1 True (Ptr nullptr) None =
     Ok ((Ptr \<lparr>conv_in_channels = 1, conv_out_channels = 4, conv_kernel_size = [3, 3],
               conv_stride = [2, 2], conv_padding = Width [1, 1], conv_dilation = [1, 1],
               conv_groups = 1, conv_bias = True, conv_padding_mode = kReplicate\<rparr>,
          Ptr (Ptr \<lparr>conv_in_channels = 1, conv_out_channels = 4, conv_kernel_size = [3, 3],
               conv_stride = [2, 2], conv_padding = Width [1, 1], conv_dilation = [1, 1],
               conv_groups = 1, conv_bias = True, conv_padding_mode = kReplicate\<rparr>)), None)
   \<and> THSNN_Conv2d_ctor_1 Ok 1 4 3 3 2 2 1 1 1 1 2 1 True (Ptr nullptr) None =
       THSNN_Conv2d_ctor Ok 1 4 3 2 1 1 2 1 True (Ptr nullptr) None
   \<and> THSNN_Conv3d_ctor_1 Ok 1 4 3 3 3 2 2 2 1 1 1 1 1 1 2 1 True (Ptr nullptr) None =
       THSNN_Conv3d_ctor Ok 1 4 3 2 1 1 2 1 True (Ptr nullptr) None"
  using per_axis_equal_values_same_module
    [where ic = 1 and oc = 4 and k = 3 and s = 2 and p = 1 and d = 1 and pm = 2 and g = 1
       and b = True and out = "Ptr nullptr" and le = None and ?Conv2dImpl = Ok
       and ?Conv3dImpl = Ok]
  by (simp add: THSNN_Conv2d_ctor_def THSNN_Conv2d_opts_def ApplyPaddingMode_conv
        ExpandingArray_simps Let_def ConvOptions_def CATCH_RETURN_NNModule_def CATCH_def
        create_module_def)

text \<open>
  Claim C9. In the per-axis overloads the choice between "same", "valid" and a width is
  made from \<^verbatim>\<open>paddingX\<close> alone: when it is \<open>-1\<close> (or \<open>0\<close>) the policy is "same" (or
  "valid") and \<^verbatim>\<open>paddingY\<close> and \<^verbatim>\<open>paddingZ\<close> have no influence on the options or on the
  call.
\<close>

theorem per_axis_sentinel_from_x_only:
  "conv_padding (THSNN_Conv2d_opts_1 ic oc kx ky sx sy (- 1) py dx dy pm g b) = kSame
   \<and> conv_padding (THSNN_Conv2d_opts_1 ic oc kx ky sx sy 0 py dx dy pm g b) = kValid
   \<and> conv_padding
       (THSNN_Conv3d_opts_1 ic oc kx ky kz sx sy sz (- 1) py pz dx dy dz pm g b) = kSame
   \<and> conv_padding
       (THSNN_Conv3d_opts_1 ic oc kx ky kz sx sy sz 0 py pz dx dy dz pm g b) = kValid
   \<and> THSNN_Conv2d_opts_1 ic oc kx ky sx sy (- 1) py dx dy pm g b =
       THSNN_Conv2d_opts_1 ic oc kx ky sx sy (- 1) py' dx dy pm g b
   \<and> THSNN_Conv2d_opts_1 ic oc kx ky sx sy 0 py dx dy pm g b =
       THSNN_Conv2d_opts_1 ic oc kx ky sx sy 0 py' dx dy pm g b
   \<and> THSNN_Conv3d_opts_1 ic oc kx ky kz sx sy sz (- 1) py pz dx dy dz pm g b =
       THSNN_Conv3d_opts_1 ic oc kx ky kz sx sy sz (- 1) py' pz' dx dy dz pm g b
   \<and> THSNN_Conv3d_opts_1 ic oc kx ky kz sx sy sz 0 py pz dx dy dz pm g b =
       THSNN_Conv3d_opts_1 ic oc kx ky kz sx sy sz 0 py' pz' dx dy dz pm g b
   \<and> THSNN_Conv2d_ctor_1 Conv2dImpl ic oc kx ky sx sy (- 1) py dx dy pm g b out le =
       THSNN_Conv2d_ctor_1 Conv2dImpl ic oc kx ky sx sy (- 1) py' dx dy pm g b out le
   \<and> THSNN_Conv2d_ctor_1 Conv2dImpl ic oc kx ky sx sy 0 py dx dy pm g b out le =
       THSNN_Conv2d_ctor_1 Conv2dImpl ic oc kx ky sx sy 0 py' dx dy pm g b out le
   \<and> THSNN_Conv3d_ctor_1 Conv3dImpl ic oc kx ky kz sx sy sz (- 1) py pz dx dy dz pm g b
         out le =
       THSNN_Conv3d_ctor_1 Conv3dImpl ic oc kx ky kz sx sy sz (- 1) py' pz' dx dy dz pm g b
         out le
   \<and> THSNN_Conv3d_ctor_1 Conv3dImpl ic oc kx ky kz sx sy sz 0 py pz dx dy dz pm g b out le =
       THSNN_Conv3d_ctor_1 Conv3dImpl ic oc kx ky kz sx sy sz 0 py' pz' dx dy dz pm g b
         out le"
  by (simp add: conv_ctor_defs conv_opts_defs ApplyPaddingMode_conv Let_def)

theorem per_axis_sentinel_from_x_only_witness:
  "conv_padding (THSNN_Conv2d_opts_1 1 4 3 3 1 1 (- 1) 9 1 1 0 1 True) = kSame
   \<and> conv_padding (THSNN_Conv2d_opts_1 1 4 3 3 1 1 0 9 1 1 0 1 True) = kValid
   \<and> THSNN_Conv2d_opts_1 1 4 3 3 1 1 (- 1) 9 1 1 0 1 True =
       THSNN_Conv2d_opts_1 1 4 3 3 1 1 (- 1) 2 1 1 0 1 True
   \<and> THSNN_Conv3d_opts_1 1 4 3 3 3 1 1 1 0 9 8 1 1 1 0 1 True =
       THSNN_Conv3d_opts_1 1 4 3 3 3 1 1 1 0 2 5 1 1 1 0 1 True
   \<and> THSNN_Conv2d_ctor_1 Ok 1 4 3 3 1 1 (- 1) 9 1 1 0 1 True nullptr None =
       THSNN_Conv2d_ctor_1 Ok 1 4 3 3 1 1 (- 1) 2 1 1 0 1 True nullptr None"
  using per_axis_sentinel_from_x_only
    [where ic = 1 and oc = 4 and kx = 3 and ky = 3 and kz = 3 and sx = 1 and sy = 1 and sz = 1
       and py = 9 and pz = 8 and py' = 2 and pz' = 5 and dx = 1 and dy = 1 and dz = 1
       and pm = 0 and g = 1 and b = True and out = nullptr and le = None
       and ?Conv2dImpl = Ok and ?Conv3dImpl = Ok]
  by blast

subsection \<open>Padding mode\<close>

text \<open>
  Claim C5. The values 0, 1, 2, 3 of \<^verbatim>\<open>paddingMode\<close> set the fill policy of the options to
  zeros, reflect, replicate, circular. \<^verbatim>\<open>ApplyPaddingMode\<close> works on options whose padding
  is already set and changes the fill-policy slot only: the padding slot of every
  convolution and transposed-convolution constructor does not depend on \<^verbatim>\<open>paddingMode\<close>.
\<close>

theorem padding_mode_enum_sets_fill_policy:
  "conv_padding_mode (ApplyPaddingMode conv_set_padding_mode copts 0) = kZeros
   \<and> conv_padding_mode (ApplyPaddingMode conv_set_padding_mode copts 1) = kReflect
   \<and> conv_padding_mode (ApplyPaddingMode conv_set_padding_mode copts 2) = kReplicate
   \<and> conv_padding_mode (ApplyPaddingMode conv_set_padding_mode copts 3) = kCircular
   \<and> ApplyPaddingMode conv_set_padding_mode copts pm =
       copts\<lparr>conv_padding_mode :=
         conv_padding_mode (ApplyPaddingMode conv_set_padding_mode copts pm)\<rparr>
   \<and> convt_padding_mode (ApplyPaddingMode convt_set_padding_mode topts 0) = kZeros
   \<and> convt_padding_mode (ApplyPaddingMode convt_set_padding_mode topts 1) = kReflect
   \<and> convt_padding_mode (ApplyPaddingMode convt_set_padding_mode topts 2) = kReplicate
   \<and> convt_padding_mode (ApplyPaddingMode convt_set_padding_mode topts 3) = kCircular
   \<and> ApplyPaddingMode convt_set_padding_mode topts pm =
       topts\<lparr>convt_padding_mode :=
         convt_padding_mode (ApplyPaddingMode convt_set_padding_mode topts pm)\<rparr>
   \<and> map (\<lambda>pm. conv_padding_mode (THSNN_Conv1d_opts ic oc k s p d pm g b)) [0, 1, 2, 3] =
       [kZeros, kReflect, kReplicate, kCircular]
   \<and> map (\<lambda>pm. conv_padding_mode (THSNN_Conv2d_opts ic oc k s p d pm g b)) [0, 1, 2, 3] =
       [kZeros, kReflect, kReplicate, kCircular]
   \<and> map (\<lambda>pm. conv_padding_mode
                (THSNN_Conv2d_opts_1 ic oc kx ky sx sy px py dx dy pm g b)) [0, 1, 2, 3] =
       [kZeros, kReflect, kReplicate, kCircular]
   \<and> map (\<lambda>pm. conv_padding_mode (THSNN_Conv3d_opts ic oc k s p d pm g b)) [0, 1, 2, 3] =
       [kZeros, kReflect, kReplicate, kCircular]
   \<and> map (\<lambda>pm. conv_padding_mode
                (THSNN_Conv3d_opts_1 ic oc kx ky kz sx sy sz px py pz dx dy dz pm g b))
         [0, 1, 2, 3] =
       [kZeros, kReflect, kReplicate, kCircular]
   \<and> map (\<lambda>pm. convt_padding_mode (THSNN_ConvTranspose1d_opts ic oc k s p op d pm g b))
         [0, 1, 2, 3] =
       [kZeros, kReflect, kReplicate, kCircular]
   \<and> map (\<lambda>pm. convt_padding_mode (THSNN_ConvTranspose2d_opts ic oc k s p op d pm g b))
         [0, 1, 2, 3] =
       [kZeros, kReflect, kReplicate, kCircular]
   \<and> map (\<lambda>pm. convt_padding_mode (THSNN_ConvTranspose3d_opts ic oc k s p op d pm g b))
         [0, 1, 2, 3] =
       [kZeros, kReflect, kReplicate, kCircular]
   \<and> conv_padding (THSNN_Conv1d_opts ic oc k s p d pm g b) =
       conv_padding (THSNN_Conv1d_opts ic oc k s p d pm' g b)
   \<and> conv_padding (THSNN_Conv2d_opts ic oc k s p d pm g b) =
       conv_padding (THSNN_Conv2d_opts ic oc k s p d pm' g b)
   \<and> conv_padding (THSNN_Conv2d_opts_1 ic oc kx ky sx sy px py dx dy pm g b) =
       conv_padding (THSNN_Conv2d_opts_1 ic oc kx ky sx sy px py dx dy pm' g b)
   \<and> conv_padding (THSNN_Conv3d_opts ic oc k s p d pm g b) =
       conv_padding (THSNN_Conv3d_opts ic oc k s p d pm' g b)
   \<and> conv_padding (THSNN_Conv3d_opts_1 ic oc kx ky kz sx sy sz px py pz dx dy dz pm g b) =
       conv_padding (THSNN_Conv3d_opts_1 ic oc kx ky kz sx sy sz px py pz dx dy dz pm' g b)
   \<and> convt_padding (THSNN_ConvTranspose1d_opts ic oc k s p op d pm g b) =
       convt_padding (THSNN_ConvTranspose1d_opts ic oc k s p op d pm' g b)
   \<and> convt_padding (THSNN_ConvTranspose2d_opts ic oc k s p op d pm g b) =
       convt_padding (THSNN_ConvTranspose2d_opts ic oc k s p op d pm' g b)
   \<and> convt_padding (THSNN_ConvTranspose3d_opts ic oc k s p op d pm g b) =
       convt_padding (THSNN_ConvTranspose3d_opts ic oc k s p op d pm' g b)"
  by (simp add: opts_simps)

theorem padding_mode_enum_sets_fill_policy_witness:
  "map (\<lambda>pm. conv_padding_mode (THSNN_Conv1d_opts 1 4 3 1 (- 1) 1 pm 1 True)) [0, 1, 2, 3] =
       [kZeros, kReflect, kReplicate, kCircular]
   \<and> conv_padding (THSNN_Conv1d_opts 1 4 3 1 (- 1) 1 2 1 True) = kSame
   \<and> map (\<lambda>pm. convt_padding_mode (THSNN_ConvTranspose2d_opts 1 4 3 1 2 0 1 pm 1 True))
         [0, 1, 2, 3] =
       [kZeros, kReflect, kReplicate, kCircular]
   \<and> convt_padding (THSNN_ConvTranspose2d_opts 1 4 3 1 2 0 1 3 1 True) = [2, 2]"
  using padding_mode_enum_sets_fill_policy
    [where ic = 1 and oc = 4 and k = 3 and s = 1 and p = "- 1" and d = 1 and g = 1
       and b = True]
    padding_mode_enum_sets_fill_policy
    [where ic = 1 and oc = 4 and k = 3 and s = 1 and p = 2 and d = 1 and g = 1
       and b = True and op = 0]
  by (simp add: opts_simps)

text \<open>
  Claim C8. A \<^verbatim>\<open>paddingMode\<close> other than 0, 1, 2, 3 is accepted: \<^verbatim>\<open>ApplyPaddingMode\<close> assigns
  nothing, the fill policy stays at the library's default (zeros), and every constructor
  builds the options, and so behaves, as with \<^verbatim>\<open>paddingMode = 0\<close>.
\<close>

theorem padding_mode_out_of_range_ignored:
  assumes "pm \<noteq> 0" and "pm \<noteq> 1" and "pm \<noteq> 2" and "pm \<noteq> 3"
  shows
  "ApplyPaddingMode padding_mode opts pm = opts
   \<and> THSNN_Conv1d_opts ic oc k s p d pm g b = THSNN_Conv1d_opts ic oc k s p d 0 g b
   \<and> THSNN_Conv2d_opts ic oc k s p d pm g b = THSNN_Conv2d_opts ic oc k s p d 0 g b
   \<and> THSNN_Conv2d_opts_1 ic oc kx ky sx sy px py dx dy pm g b =
       THSNN_Conv2d_opts_1 ic oc kx ky sx sy px py dx dy 0 g b
   \<and> THSNN_Conv3d_opts ic oc k s p d pm g b = THSNN_Conv3d_opts ic oc k s p d 0 g b
   \<and> THSNN_Conv3d_opts_1 ic oc kx ky kz sx sy sz px py pz dx dy dz pm g b =
       THSNN_Conv3d_opts_1 ic oc kx ky kz sx sy sz px py pz dx dy dz 0 g b
   \<and> THSNN_ConvTranspose1d_opts ic oc k s p op d pm g b =
       THSNN_ConvTranspose1d_opts ic oc k s p op d 0 g b
   \<and> THSNN_ConvTranspose2d_opts ic oc k s p op d pm g b =
       THSNN_ConvTranspose2d_opts ic oc k s p op d 0 g b
   \<and> THSNN_ConvTranspose3d_opts ic oc k s p op d pm g b =
       THSNN_ConvTranspose3d_opts ic oc k s p op d 0 g b
   \<and> conv_padding_mode (THSNN_Conv1d_opts ic oc k s p d pm g b) = kZeros
   \<and> conv_padding_mode (THSNN_Conv2d_opts ic oc k s p d pm g b) = kZeros
   \<and> conv_padding_mode (THSNN_Conv2d_opts_1 ic oc kx ky sx sy px py dx dy pm g b) = kZeros
   \<and> conv_padding_mode (THSNN_Conv3d_opts ic oc k s p d pm g b) = kZeros
   \<and> conv_padding_mode
       (THSNN_Conv3d_opts_1 ic oc kx ky kz sx sy sz px py pz dx dy dz pm g b) = kZeros
   \<and> convt_padding_mode (THSNN_ConvTranspose1d_opts ic oc k s p op d pm g b) = kZeros
   \<and> convt_padding_mode (THSNN_ConvTranspose2d_opts ic oc k s p op d pm g b) = kZeros
   \<and> convt_padding_mode (THSNN_ConvTranspose3d_opts ic oc k s p op d pm g b) = kZeros
   \<and> THSNN_Conv1d_ctor Conv1dImpl ic oc k s p d pm g b out le =
       THSNN_Conv1d_ctor Conv1dImpl ic oc k s p d 0 g b out le
   \<and> THSNN_Conv2d_ctor Conv2dImpl ic oc k s p d pm g b out le =
       THSNN_Conv2d_ctor Conv2dImpl ic oc k s p d 0 g b out le
   \<and> THSNN_Conv2d_ctor_1 Conv2dImpl ic oc kx ky sx sy px py dx dy pm g b out le =
       THSNN_Conv2d_ctor_1 Conv2dImpl ic oc kx ky sx sy px py dx dy 0 g b out le
   \<and> THSNN_Conv3d_ctor Conv3dImpl ic oc k s p d pm g b out le =
       THSNN_Conv3d_ctor Conv3dImpl ic oc k s p d 0 g b out le
   \<and> THSNN_Conv3d_ctor_1 Conv3dImpl ic oc kx ky kz sx sy sz px py pz dx dy dz pm g b out le =
       THSNN_Conv3d_ctor_1 Conv3dImpl ic oc kx ky kz sx sy sz px py pz dx dy dz 0 g b out le
   \<and> THSNN_ConvTranspose1d_ctor ConvTranspose1dImpl ic oc k s p op d pm g b out le =
       THSNN_ConvTranspose1d_ctor ConvTranspose1dImpl ic oc k s p op d 0 g b out le
   \<and> THSNN_ConvTranspose2d_ctor ConvTranspose2dImpl ic oc k s p op d pm g b out le =
       THSNN_ConvTranspose2d_ctor ConvTranspose2dImpl ic oc k s p op d 0 g b out le
   \<and> THSNN_ConvTranspose3d_ctor ConvTranspose3dImpl ic oc k s p op d pm g b out le =
       THSNN_ConvTranspose3d_ctor ConvTranspose3dImpl ic oc k s p op d 0 g b out le"
proof -
  have same: "ApplyPaddingMode f x pm = x" for f :: "padding_mode_t \<Rightarrow> 'z \<Rightarrow> 'z" and x
    using assms by (simp add: ApplyPaddingMode_def)
  have zero_conv: "ApplyPaddingMode conv_set_padding_mode x 0 = x"
    if "conv_padding_mode x = kZeros" for x
    using that by (simp add: ApplyPaddingMode_conv)
  have zero_convt: "ApplyPaddingMode convt_set_padding_mode x 0 = x"
    if "convt_padding_mode x = kZeros" for x
    using that by (simp add: ApplyPaddingMode_convt)
  show ?thesis
    by (simp add: same zero_conv zero_convt conv_ctor_defs conv_opts_defs convt_opts_defs
          ConvOptions_def ConvTransposeOptions_def Let_def)
qed

theorem padding_mode_out_of_range_ignored_witness:
  "ApplyPaddingMode conv_set_padding_mode (ConvOptions 1 1 4 [3]) 7 = ConvOptions 1 1 4 [3]
   \<and> conv_padding_mode (THSNN_Conv1d_opts 1 4 3 1 2 1 7 1 True) = kZeros
   \<and> conv_padding_mode (THSNN_Conv2d_opts 1 4 3 1 2 1 7 1 True) = kZeros
   \<and> convt_padding_mode (THSNN_ConvTranspose1d_opts 1 4 3 1 2 0 1 7 1 True) = kZeros
   \<and> THSNN_Conv1d_ctor Ok 1 4 3 1 2 1 7 1 True nullptr None =
       THSNN_Conv1d_ctor Ok 1 4 3 1 2 1 0 1 True nullptr None
   \<and> conv_padding_mode (THSNN_Conv3d_opts_1 1 4 3 3 3 1 1 1 2 2 2 1 1 1 (- 1) 1 True) = kZeros"
proof -
  have a: "(7 :: int64) \<noteq> 0" "(7 :: int64) \<noteq> 1" "(7 :: int64) \<noteq> 2" "(7 :: int64) \<noteq> 3"
    by simp_all
  have b: "(- 1 :: int64) \<noteq> 0" "(- 1 :: int64) \<noteq> 1" "(- 1 :: int64) \<noteq> 2"
    "(- 1 :: int64) \<noteq> 3"
    by simp_all
  note at_7 = padding_mode_out_of_range_ignored [OF a, where ic = 1 and oc = 4 and k = 3
      and s = 1 and p = 2 and d = 1 and g = 1 and b = True and op = 0 and out = nullptr
      and le = None and kx = 3 and ky = 3 and kz = 3 and sx = 1 and sy = 1 and sz = 1
      and px = 2 and py = 2 and pz = 2 and dx = 1 and dy = 1 and dz = 1
      and ?Conv1dImpl = Ok and ?Conv2dImpl = Ok and ?Conv3dImpl = Ok
      and ?ConvTranspose1dImpl = "\<lambda>_. Undefined" and ?ConvTranspose2dImpl = "\<lambda>_. Undefined"
      and ?ConvTranspose3dImpl = "\<lambda>_. Undefined"
      and padding_mode = conv_set_padding_mode and opts = "ConvOptions 1 1 4 [3]"]
  note at_minus_1 = padding_mode_out_of_range_ignored [OF b, where ic = 1 and oc = 4 and k = 3
      and s = 1 and p = 2 and d = 1 and g = 1 and b = True and op = 0 and out = nullptr
      and le = None and kx = 3 and ky = 3 and kz = 3 and sx = 1 and sy = 1 and sz = 1
      and px = 2 and py = 2 and pz = 2 and dx = 1 and dy = 1 and dz = 1
      and ?Conv1dImpl = Ok and ?Conv2dImpl = Ok and ?Conv3dImpl = Ok
      and ?ConvTranspose1dImpl = "\<lambda>_. Undefined" and ?ConvTranspose2dImpl = "\<lambda>_. Undefined"
      and ?ConvTranspose3dImpl = "\<lambda>_. Undefined"
      and padding_mode = conv_set_padding_mode and opts = "ConvOptions 1 1 4 [3]"]
  from at_7 at_minus_1 show ?thesis by blast
qed

section \<open>Properties of the fault boundary\<close>

subsection \<open>Auxiliary facts\<close>

lemma and_then_eq_Ok: "and_then x f = Ok y \<longleftrightarrow> (\<exists>v. x = Ok v \<and> f v = Ok y)"
  by (cases x) simp_all

lemma size_t_numerals: "size_t 1 = 1" "size_t 2 = 2" "size_t 3 = 3"
  by (simp_all add: size_t_def)

lemma ExpandingArray_from_Ptr:
  "ExpandingArray_from D (ArrayRef (Ptr xs) n) =
     (if n \<noteq> D then Throw (Expected_values D n)
      else if D \<le> length xs then Ok (take D xs) else Undefined)"
  by (simp add: ExpandingArray_from_def ArrayRef_def)

lemma ExpandingArray_from_one:
  "ExpandingArray_from 1 (ArrayRef (Ptr (x # xs)) 1) = Ok [x]"
  "ExpandingArray_from (Suc 0) (ArrayRef (Ptr (x # xs)) (Suc 0)) = Ok [x]"
  by (simp_all add: ExpandingArray_from_Ptr)

lemmas pool_opts_defs =
  THSNN_AvgPool1d_opts_def THSNN_AvgPool2d_opts_def THSNN_AvgPool3d_opts_def
  THSNN_MaxPool1d_opts_def THSNN_MaxPool2d_opts_def THSNN_MaxPool3d_opts_def

lemma CATCH_never_throws: "CATCH stmt res last_error \<noteq> Throw e"
  by (cases stmt) (simp_all add: CATCH_def)

lemma CATCH_RETURN_NNModule_never_throws:
  "CATCH_RETURN_NNModule stmt outAsAnyModule last_error \<noteq> Throw e"
  by (simp add: CATCH_RETURN_NNModule_def CATCH_never_throws)

lemma CATCH_RETURN_NNModule_create_Throw:
  assumes "T opts = Throw e"
  shows "CATCH_RETURN_NNModule (create_module T opts out) out le = Ok ((nullptr, out), Some e)"
  using assms by (simp add: CATCH_RETURN_NNModule_def CATCH_def create_module_def)

lemma CATCH_RETURN_NNModule_build_Throw:
  assumes "and_then x (\<lambda>v. T (h v)) = Throw e"
  shows "CATCH_RETURN_NNModule (and_then x (\<lambda>v. create_module T (h v) out)) out le =
           Ok ((nullptr, out), Some e)"
proof (cases x)
  case (Ok v)
  with assms have "T (h v) = Throw e" by simp
  with Ok show ?thesis by (simp add: CATCH_RETURN_NNModule_create_Throw)
next
  case (Throw e')
  with assms show ?thesis by (simp add: CATCH_RETURN_NNModule_def CATCH_def)
next
  case Undefined
  with assms show ?thesis by simp
qed

lemmas ctor_defs =
  THSNN_AdaptiveAvgPool1d_ctor_def THSNN_AdaptiveAvgPool2d_ctor_def
  THSNN_AdaptiveAvgPool3d_ctor_def THSNN_AdaptiveMaxPool1d_ctor_def
  THSNN_AdaptiveMaxPool2d_ctor_def THSNN_AdaptiveMaxPool3d_ctor_def THSNN_AvgPool1d_ctor_def
  THSNN_AvgPool2d_ctor_def THSNN_AvgPool3d_ctor_def THSNN_ConstantPad1d_ctor_def
  THSNN_ConstantPad2d_ctor_def THSNN_ConstantPad3d_ctor_def THSNN_Conv1d_ctor_def
  THSNN_Conv2d_ctor_1_def THSNN_Conv2d_ctor_def THSNN_Conv3d_ctor_1_def
  THSNN_Conv3d_ctor_def THSNN_ConvTranspose1d_ctor_def THSNN_ConvTranspose2d_ctor_def
  THSNN_ConvTranspose3d_ctor_def THSNN_MaxPool1d_ctor_def THSNN_MaxPool2d_ctor_def
  THSNN_MaxPool3d_ctor_def THSNN_ReflectionPad1d_ctor_def THSNN_ReflectionPad2d_ctor_def
  THSNN_ReflectionPad3d_ctor_def THSNN_ReplicationPad1d_ctor_def
  THSNN_ReplicationPad2d_ctor_def THSNN_ReplicationPad3d_ctor_def THSNN_ZeroPad2d_ctor_def

text \<open>
  Claim C2. For each of the thirty exported constructors: when building the options or
  the library's module constructor raises a fault \<open>e\<close>, the call returns the null handle,
  leaves the \<^verbatim>\<open>outAsAnyModule\<close> pointee as it was and stores \<open>e\<close> in the last-error slot;
  and no call ends in an exception, whatever its arguments.
\<close>

theorem constructor_faults_caught:
  "(Conv1dImpl (THSNN_Conv1d_opts ic oc k s p d pm g b) = Throw e \<longrightarrow>
      THSNN_Conv1d_ctor Conv1dImpl ic oc k s p d pm g b out le =
        Ok ((nullptr, out), Some e))
   \<and> THSNN_Conv1d_ctor Conv1dImpl ic oc k s p d pm g b out le \<noteq>
       Throw e'
   \<and> (Conv2dImpl (THSNN_Conv2d_opts ic oc k s p d pm g b) = Throw e \<longrightarrow>
      THSNN_Conv2d_ctor Conv2dImpl ic oc k s p d pm g b out le =
        Ok ((nullptr, out), Some e))
   \<and> THSNN_Conv2d_ctor Conv2dImpl ic oc k s p d pm g b out le \<noteq>
       Throw e'
   \<and> (Conv2dImpl (THSNN_Conv2d_opts_1 ic oc kx ky sx sy px py dx dy pm g b) = Throw e \<longrightarrow>
      THSNN_Conv2d_ctor_1 Conv2dImpl ic oc kx ky sx sy px py dx dy pm g b out le =
        Ok ((nullptr, out), Some e))
   \<and> THSNN_Conv2d_ctor_1 Conv2dImpl ic oc kx ky sx sy px py dx dy pm g b out le \<noteq>
       Throw e'
   \<and> (Conv3dImpl (THSNN_Conv3d_opts ic oc k s p d pm g b) = Throw e \<longrightarrow>
      THSNN_Conv3d_ctor Conv3dImpl ic oc k s p d pm g b out le =
        Ok ((nullptr, out), Some e))
   \<and> THSNN_Conv3d_ctor Conv3dImpl ic oc k s p d pm g b out le \<noteq>
       Throw e'
   \<and> (Conv3dImpl (THSNN_Conv3d_opts_1 ic oc kx ky kz sx sy sz px py pz dx dy dz pm g b) = Throw e \<longrightarrow>
      THSNN_Conv3d_ctor_1 Conv3dImpl ic oc kx ky kz sx sy sz px py pz dx dy dz pm g b out le =
        Ok ((nullptr, out), Some e))
   \<and> THSNN_Conv3d_ctor_1 Conv3dImpl ic oc kx ky kz sx sy sz px py pz dx dy dz pm g b out le \<noteq>
       Throw e'
   \<and> (ConvTranspose1dImpl (THSNN_ConvTranspose1d_opts ic oc k s p op d pm g b) = Throw e \<longrightarrow>
      THSNN_ConvTranspose1d_ctor ConvTranspose1dImpl ic oc k s p op d pm g b out le =
        Ok ((nullptr, out), Some e))
   \<and> THSNN_ConvTranspose1d_ctor ConvTranspose1dImpl ic oc k s p op d pm g b out le \<noteq>
       Throw e'
   \<and> (ConvTranspose2dImpl (THSNN_ConvTranspose2d_opts ic oc k s p op d pm g b) = Throw e \<longrightarrow>
      THSNN_ConvTranspose2d_ctor ConvTranspose2dImpl ic oc k s p op d pm g b out le =
        Ok ((nullptr, out), Some e))
   \<and> THSNN_ConvTranspose2d_ctor ConvTranspose2dImpl ic oc k s p op d pm g b out le \<noteq>
       Throw e'
   \<and> (ConvTranspose3dImpl (THSNN_ConvTranspose3d_opts ic oc k s p op d pm g b) = Throw e \<longrightarrow>
      THSNN_ConvTranspose3d_ctor ConvTranspose3dImpl ic oc k s p op d pm g b out le =
        Ok ((nullptr, out), Some e))
   \<and> THSNN_ConvTranspose3d_ctor ConvTranspose3dImpl ic oc k s p op d pm g b out le \<noteq>
       Throw e'
   \<and> (and_then (THSNN_AvgPool1d_opts kernelSize stride) AvgPool1dImpl = Throw e \<longrightarrow>
      THSNN_AvgPool1d_ctor AvgPool1dImpl kernelSize stride out le =
        Ok ((nullptr, out), Some e))
   \<and> THSNN_AvgPool1d_ctor AvgPool1dImpl kernelSize stride out le \<noteq>
       Throw e'
   \<and> (and_then (THSNN_AvgPool2d_opts kernelSize kl stride sl) AvgPool2dImpl = Throw e \<longrightarrow>
      THSNN_AvgPool2d_ctor AvgPool2dImpl kernelSize kl stride sl out le =
        Ok ((nullptr, out), Some e))
   \<and> THSNN_AvgPool2d_ctor AvgPool2dImpl kernelSize kl stride sl out le \<noteq>
       Throw e'
   \<and> (and_then (THSNN_AvgPool3d_opts kernelSize kl stride sl) AvgPool3dImpl = Throw e \<longrightarrow>
      THSNN_AvgPool3d_ctor AvgPool3dImpl kernelSize kl stride sl out le =
        Ok ((nullptr, out), Some e))
   \<and> THSNN_AvgPool3d_ctor AvgPool3dImpl kernelSize kl stride sl out le \<noteq>
       Throw e'
   \<and> (and_then (THSNN_MaxPool1d_opts kernelSize stride padding dilation cm) MaxPool1dImpl = Throw e \<longrightarrow>
      THSNN_MaxPool1d_ctor MaxPool1dImpl kernelSize stride padding dilation cm out le =
        Ok ((nullptr, out), Some e))
   \<and> THSNN_MaxPool1d_ctor MaxPool1dImpl kernelSize stride padding dilation cm out le \<noteq>
       Throw e'
   \<and> (and_then (THSNN_MaxPool2d_opts kernelSize kl stride sl padding pl dilation dl cm) MaxPool2dImpl = Throw e \<longrightarrow>
      THSNN_MaxPool2d_ctor MaxPool2dImpl kernelSize kl stride sl padding pl dilation dl cm out le =
        Ok ((nullptr, out), Some e))
   \<and> THSNN_MaxPool2d_ctor MaxPool2dImpl kernelSize kl stride sl padding pl dilation dl cm out le \<noteq>
       Throw e'
   \<and> (and_then (THSNN_MaxPool3d_opts kernelSize kl stride sl padding pl dilation dl cm) MaxPool3dImpl = Throw e \<longrightarrow>
      THSNN_MaxPool3d_ctor MaxPool3dImpl kernelSize kl stride sl padding pl dilation dl cm out le =
        Ok ((nullptr, out), Some e))
   \<and> THSNN_MaxPool3d_ctor MaxPool3dImpl kernelSize kl stride sl padding pl dilation dl cm out le \<noteq>
       Throw e'
   \<and> (and_then (ExpandingArray_from 1 (ArrayRef kernelSize (size_t kl)))
         (\<lambda>v. AdaptiveAvgPool1dImpl \<lparr>output_size = v\<rparr>) = Throw e \<longrightarrow>
      THSNN_AdaptiveAvgPool1d_ctor AdaptiveAvgPool1dImpl kernelSize kl out le =
        Ok ((nullptr, out), Some e))
   \<and> THSNN_AdaptiveAvgPool1d_ctor AdaptiveAvgPool1dImpl kernelSize kl out le \<noteq>
       Throw e'
   \<and> (and_then (ExpandingArrayWithOptionalElem_from 2 (ArrayRef kernelSize (size_t kl)))
         (\<lambda>v. AdaptiveAvgPool2dImpl \<lparr>output_size = v\<rparr>) = Throw e \<longrightarrow>
      THSNN_AdaptiveAvgPool2d_ctor AdaptiveAvgPool2dImpl kernelSize kl out le =
        Ok ((nullptr, out), Some e))
   \<and> THSNN_AdaptiveAvgPool2d_ctor AdaptiveAvgPool2dImpl kernelSize kl out le \<noteq>
       Throw e'
   \<and> (and_then (ExpandingArrayWithOptionalElem_from 3 (ArrayRef kernelSize (size_t kl)))
         (\<lambda>v. AdaptiveAvgPool3dImpl \<lparr>output_size = v\<rparr>) = Throw e \<longrightarrow>
      THSNN_AdaptiveAvgPool3d_ctor AdaptiveAvgPool3dImpl kernelSize kl out le =
        Ok ((nullptr, out), Some e))
   \<and> THSNN_AdaptiveAvgPool3d_ctor AdaptiveAvgPool3dImpl kernelSize kl out le \<noteq>
       Throw e'
   \<and> (and_then (ExpandingArray_from 1 (ArrayRef kernelSize (size_t kl)))
         (\<lambda>v. AdaptiveMaxPool1dImpl \<lparr>output_size = v\<rparr>) = Throw e \<longrightarrow>
      THSNN_AdaptiveMaxPool1d_ctor AdaptiveMaxPool1dImpl kernelSize kl out le =
        Ok ((nullptr, out), Some e))
   \<and> THSNN_AdaptiveMaxPool1d_ctor AdaptiveMaxPool1dImpl kernelSize kl out le \<noteq>
       Throw e'
   \<and> (and_then (ExpandingArrayWithOptionalElem_from 2 (ArrayRef kernelSize (size_t kl)))
         (\<lambda>v. AdaptiveMaxPool2dImpl \<lparr>output_size = v\<rparr>) = Throw e \<longrightarrow>
      THSNN_AdaptiveMaxPool2d_ctor AdaptiveMaxPool2dImpl kernelSize kl out le =
        Ok ((nullptr, out), Some e))
   \<and> THSNN_AdaptiveMaxPool2d_ctor AdaptiveMaxPool2dImpl kernelSize kl out le \<noteq>
       Throw e'
   \<and> (and_then (ExpandingArrayWithOptionalElem_from 3 (ArrayRef kernelSize (size_t kl)))
         (\<lambda>v. AdaptiveMaxPool3dImpl \<lparr>output_size = v\<rparr>) = Throw e \<longrightarrow>
      THSNN_AdaptiveMaxPool3d_ctor AdaptiveMaxPool3dImpl kernelSize kl out le =
        Ok ((nullptr, out), Some e))
   \<and> THSNN_AdaptiveMaxPool3d_ctor AdaptiveMaxPool3dImpl kernelSize kl out le \<noteq>
       Throw e'
   \<and> (ZeroPad2dImpl (PadOptions 2 p) = Throw e \<longrightarrow>
      THSNN_ZeroPad2d_ctor ZeroPad2dImpl p out le =
        Ok ((nullptr, out), Some e))
   \<and> THSNN_ZeroPad2d_ctor ZeroPad2dImpl p out le \<noteq>
       Throw e'
   \<and> (ConstantPad1dImpl (ConstantPadOptions 1 p v) = Throw e \<longrightarrow>
      THSNN_ConstantPad1d_ctor ConstantPad1dImpl v p out le =
        Ok ((nullptr, out), Some e))
   \<and> THSNN_ConstantPad1d_ctor ConstantPad1dImpl v p out le \<noteq>
       Throw e'
   \<and> (ConstantPad2dImpl (ConstantPadOptions 2 p v) = Throw e \<longrightarrow>
      THSNN_ConstantPad2d_ctor ConstantPad2dImpl v p out le =
        Ok ((nullptr, out), Some e))
   \<and> THSNN_ConstantPad2d_ctor ConstantPad2dImpl v p out le \<noteq>
       Throw e'
   \<and> (ConstantPad3dImpl (ConstantPadOptions 3 p v) = Throw e \<longrightarrow>
      THSNN_ConstantPad3d_ctor ConstantPad3dImpl v p out le =
        Ok ((nullptr, out), Some e))
   \<and> THSNN_ConstantPad3d_ctor ConstantPad3dImpl v p out le \<noteq>
       Throw e'
   \<and> (ReplicationPad1dImpl (PadOptions 1 p) = Throw e \<longrightarrow>
      THSNN_ReplicationPad1d_ctor ReplicationPad1dImpl p out le =
        Ok ((nullptr, out), Some e))
   \<and> THSNN_ReplicationPad1d_ctor ReplicationPad1dImpl p out le \<noteq>
       Throw e'
   \<and> (ReplicationPad2dImpl (PadOptions 2 p) = Throw e \<longrightarrow>
      THSNN_ReplicationPad2d_ctor ReplicationPad2dImpl p out le =
        Ok ((nullptr, out), Some e))
   \<and> THSNN_ReplicationPad2d_ctor ReplicationPad2dImpl p out le \<noteq>
       Throw e'
   \<and> (ReplicationPad3dImpl (PadOptions 3 p) = Throw e \<longrightarrow>
      THSNN_ReplicationPad3d_ctor ReplicationPad3dImpl p out le =
        Ok ((nullptr, out), Some e))
   \<and> THSNN_ReplicationPad3d_ctor ReplicationPad3dImpl p out le \<noteq>
       Throw e'
   \<and> (ReflectionPad1dImpl (PadOptions 1 p) = Throw e \<longrightarrow>
      THSNN_ReflectionPad1d_ctor ReflectionPad1dImpl p out le =
        Ok ((nullptr, out), Some e))
   \<and> THSNN_ReflectionPad1d_ctor ReflectionPad1dImpl p out le \<noteq>
       Throw e'
   \<and> (ReflectionPad2dImpl (PadOptions 2 p) = Throw e \<longrightarrow>
      THSNN_ReflectionPad2d_ctor ReflectionPad2dImpl p out le =
        Ok ((nullptr, out), Some e))
   \<and> THSNN_ReflectionPad2d_ctor ReflectionPad2dImpl p out le \<noteq>
       Throw e'
   \<and> (ReflectionPad3dImpl (PadOptions 3 p) = Throw e \<longrightarrow>
      THSNN_ReflectionPad3d_ctor ReflectionPad3dImpl p out le =
        Ok ((nullptr, out), Some e))
   \<and> THSNN_ReflectionPad3d_ctor ReflectionPad3dImpl p out le \<noteq>
       Throw e'"
  unfolding ctor_defs
  by (intro conjI impI;
      (erule CATCH_RETURN_NNModule_create_Throw
       | erule CATCH_RETURN_NNModule_build_Throw
       | rule CATCH_RETURN_NNModule_never_throws))

theorem constructor_faults_caught_witness:
  "THSNN_Conv1d_ctor (\<lambda>_. Throw (Library_fault ''kernel size'')) 1 4 (- 3) 1 0 1 0 1 True
       (Ptr (Ptr (5 :: nat))) None =
     Ok ((nullptr, Ptr (Ptr 5)), Some (Library_fault ''kernel size''))
   \<and> THSNN_MaxPool1d_ctor (\<lambda>_. Throw (Library_fault ''kernel size'')) (Ptr [- 3]) nullptr
         nullptr nullptr False (Ptr (Ptr (5 :: nat))) None =
       Ok ((nullptr, Ptr (Ptr 5)), Some (Library_fault ''kernel size''))
   \<and> THSNN_AvgPool2d_ctor Ok (Ptr [3, 3, 3]) 3 nullptr 0 nullptr None =
       Ok ((nullptr, nullptr), Some (Expected_values 2 3))"
proof -
  let ?e = "Library_fault ''kernel size''"
  let ?bad = "\<lambda>_. Throw ?e"
  note library_fault = constructor_faults_caught
    [where ?Conv1dImpl = ?bad and ?Conv2dImpl = ?bad and ?Conv3dImpl = ?bad
       and ?ConvTranspose1dImpl = ?bad and ?ConvTranspose2dImpl = ?bad
       and ?ConvTranspose3dImpl = ?bad and ?AvgPool1dImpl = ?bad and ?AvgPool2dImpl = ?bad
       and ?AvgPool3dImpl = ?bad and ?MaxPool1dImpl = ?bad and ?MaxPool2dImpl = ?bad
       and ?MaxPool3dImpl = ?bad and ?AdaptiveAvgPool1dImpl = ?bad
       and ?AdaptiveAvgPool2dImpl = ?bad and ?AdaptiveAvgPool3dImpl = ?bad
       and ?AdaptiveMaxPool1dImpl = ?bad and ?AdaptiveMaxPool2dImpl = ?bad
       and ?AdaptiveMaxPool3dImpl = ?bad and ?ZeroPad2dImpl = ?bad
       and ?ConstantPad1dImpl = ?bad and ?ConstantPad2dImpl = ?bad
       and ?ConstantPad3dImpl = ?bad and ?ReplicationPad1dImpl = ?bad
       and ?ReplicationPad2dImpl = ?bad and ?ReplicationPad3dImpl = ?bad
       and ?ReflectionPad1dImpl = ?bad and ?ReflectionPad2dImpl = ?bad
       and ?ReflectionPad3dImpl = ?bad and ic = 1 and oc = 4 and s = 1 and d = 1 and g = 1
       and k = "- 3" and p = 0 and pm = 0 and b = True and op = 0 and kx = "- 3"
       and ky = "- 3" and kz = "- 3" and sx = 1 and sy = 1 and sz = 1 and px = 0 and py = 0
       and pz = 0 and dx = 1 and dy = 1 and dz = 1 and kernelSize = "Ptr [- 3]"
       and stride = nullptr and padding = nullptr and dilation = nullptr and cm = False
       and kl = 1 and sl = 0 and pl = 0 and dl = 0 and v = "0 :: nat" and e = ?e
       and le = None and out = "Ptr (Ptr (5 :: nat))" and e' = ?e]
  note wrong_length = constructor_faults_caught
    [where ?Conv1dImpl = ?bad and ?Conv2dImpl = ?bad and ?Conv3dImpl = ?bad
       and ?ConvTranspose1dImpl = ?bad and ?ConvTranspose2dImpl = ?bad
       and ?ConvTranspose3dImpl = ?bad and ?AvgPool1dImpl = ?bad and ?AvgPool2dImpl = Ok
       and ?AvgPool3dImpl = ?bad and ?MaxPool1dImpl = ?bad and ?MaxPool2dImpl = ?bad
       and ?MaxPool3dImpl = ?bad and ?AdaptiveAvgPool1dImpl = ?bad
       and ?AdaptiveAvgPool2dImpl = ?bad and ?AdaptiveAvgPool3dImpl = ?bad
       and ?AdaptiveMaxPool1dImpl = ?bad and ?AdaptiveMaxPool2dImpl = ?bad
       and ?AdaptiveMaxPool3dImpl = ?bad and ?ZeroPad2dImpl = ?bad
       and ?ConstantPad1dImpl = ?bad and ?ConstantPad2dImpl = ?bad
       and ?ConstantPad3dImpl = ?bad and ?ReplicationPad1dImpl = ?bad
       and ?ReplicationPad2dImpl = ?bad and ?ReplicationPad3dImpl = ?bad
       and ?ReflectionPad1dImpl = ?bad and ?ReflectionPad2dImpl = ?bad
       and ?ReflectionPad3dImpl = ?bad and ic = 1 and oc = 4 and s = 1 and d = 1 and g = 1
       and k = "- 3" and p = 0 and pm = 0 and b = True and op = 0 and kx = "- 3"
       and ky = "- 3" and kz = "- 3" and sx = 1 and sy = 1 and sz = 1 and px = 0 and py = 0
       and pz = 0 and dx = 1 and dy = 1 and dz = 1 and kernelSize = "Ptr [3, 3, 3]"
       and stride = nullptr and padding = nullptr and dilation = nullptr and cm = False
       and kl = 3 and sl = 0 and pl = 0 and dl = 0 and v = "0 :: nat" and e = "Expected_values 2 3"
       and le = None and out = nullptr and e' = ?e]
  have "?bad (THSNN_Conv1d_opts 1 4 (- 3) 1 0 1 0 1 True) = Throw ?e"
    by simp
  with library_fault
  have conv: "THSNN_Conv1d_ctor ?bad 1 4 (- 3) 1 0 1 0 1 True (Ptr (Ptr (5 :: nat))) None =
      Ok ((nullptr, Ptr (Ptr 5)), Some ?e)"
    by blast
  have "and_then (THSNN_MaxPool1d_opts (Ptr [- 3]) nullptr nullptr nullptr False) ?bad =
      Throw ?e"
    by (simp add: pool_opts_defs ExpandingArray_from_one)
  with library_fault
  have maxpool: "THSNN_MaxPool1d_ctor ?bad (Ptr [- 3]) nullptr nullptr nullptr False
      (Ptr (Ptr (5 :: nat))) None = Ok ((nullptr, Ptr (Ptr 5)), Some ?e)"
    by blast
  have "and_then (THSNN_AvgPool2d_opts (Ptr [3, 3, 3]) 3 nullptr 0) Ok =
      Throw (Expected_values 2 3)"
    by (simp add: pool_opts_defs ExpandingArray_from_Ptr size_t_numerals)
  with wrong_length
  have avgpool: "THSNN_AvgPool2d_ctor Ok (Ptr [3, 3, 3]) 3 nullptr 0 nullptr None =
      Ok ((nullptr, nullptr), Some (Expected_values 2 3))"
    by blast
  from conv maxpool avgpool show ?thesis by blast
qed

section \<open>Properties of the pooling constructors\<close>

text \<open>
  Claim C6. A null pointer for an optional array leaves the option untouched. With a null
  \<^verbatim>\<open>stride\<close> the average pooling constructors pass on the options exactly as the library
  builds them from the kernel size; so do the max pooling constructors (after their
  \<^verbatim>\<open>ceil_mode\<close> call) when \<^verbatim>\<open>stride\<close>, \<^verbatim>\<open>padding\<close> and \<^verbatim>\<open>dilation\<close> are all null. For each of
  the three taken alone: when it is null and the options are built, its slot holds the
  value the library's own options have for that kernel size.
\<close>

theorem null_optional_array_keeps_library_default:
  "THSNN_AvgPool1d_opts kernelSize nullptr =
     and_then (ExpandingArray_from 1 (ArrayRef kernelSize 1))
       (\<lambda>kernel_size. Ok (AvgPoolOptions 1 kernel_size))
   \<and> THSNN_AvgPool2d_opts kernelSize kl nullptr sl =
       and_then (ExpandingArray_from 2 (ArrayRef kernelSize (size_t kl)))
         (\<lambda>kernel_size. Ok (AvgPoolOptions 2 kernel_size))
   \<and> THSNN_AvgPool3d_opts kernelSize kl nullptr sl =
       and_then (ExpandingArray_from 3 (ArrayRef kernelSize (size_t kl)))
         (\<lambda>kernel_size. Ok (AvgPoolOptions 3 kernel_size))
   \<and> THSNN_MaxPool1d_opts kernelSize nullptr nullptr nullptr cm =
       and_then (ExpandingArray_from 1 (ArrayRef kernelSize 1))
         (\<lambda>kernel_size. Ok ((MaxPoolOptions 1 kernel_size)\<lparr>maxpool_ceil_mode := cm\<rparr>))
   \<and> THSNN_MaxPool2d_opts kernelSize kl nullptr sl nullptr pl nullptr dl cm =
       and_then (ExpandingArray_from 2 (ArrayRef kernelSize (size_t kl)))
         (\<lambda>kernel_size. Ok ((MaxPoolOptions 2 kernel_size)\<lparr>maxpool_ceil_mode := cm\<rparr>))
   \<and> THSNN_MaxPool3d_opts kernelSize kl nullptr sl nullptr pl nullptr dl cm =
       and_then (ExpandingArray_from 3 (ArrayRef kernelSize (size_t kl)))
         (\<lambda>kernel_size. Ok ((MaxPoolOptions 3 kernel_size)\<lparr>maxpool_ceil_mode := cm\<rparr>))
   \<and> (THSNN_MaxPool1d_opts kernelSize nullptr padding dilation cm = Ok opts \<longrightarrow>
        maxpool_stride opts = maxpool_stride (MaxPoolOptions 1 (maxpool_kernel_size opts)))
   \<and> (THSNN_MaxPool1d_opts kernelSize stride nullptr dilation cm = Ok opts \<longrightarrow>
        maxpool_padding opts = maxpool_padding (MaxPoolOptions 1 (maxpool_kernel_size opts)))
   \<and> (THSNN_MaxPool1d_opts kernelSize stride padding nullptr cm = Ok opts \<longrightarrow>
        maxpool_dilation opts = maxpool_dilation (MaxPoolOptions 1 (maxpool_kernel_size opts)))
   \<and> (THSNN_MaxPool2d_opts kernelSize kl nullptr sl padding pl dilation dl cm = Ok opts \<longrightarrow>
        maxpool_stride opts = maxpool_stride (MaxPoolOptions 2 (maxpool_kernel_size opts)))
   \<and> (THSNN_MaxPool2d_opts kernelSize kl stride sl nullptr pl dilation dl cm = Ok opts \<longrightarrow>
        maxpool_padding opts = maxpool_padding (MaxPoolOptions 2 (maxpool_kernel_size opts)))
   \<and> (THSNN_MaxPool2d_opts kernelSize kl stride sl padding pl nullptr dl cm = Ok opts \<longrightarrow>
        maxpool_dilation opts = maxpool_dilation (MaxPoolOptions 2 (maxpool_kernel_size opts)))
   \<and> (THSNN_MaxPool3d_opts kernelSize kl nullptr sl padding pl dilation dl cm = Ok opts \<longrightarrow>
        maxpool_stride opts = maxpool_stride (MaxPoolOptions 3 (maxpool_kernel_size opts)))
   \<and> (THSNN_MaxPool3d_opts kernelSize kl stride sl nullptr pl dilation dl cm = Ok opts \<longrightarrow>
        maxpool_padding opts = maxpool_padding (MaxPoolOptions 3 (maxpool_kernel_size opts)))
   \<and> (THSNN_MaxPool3d_opts kernelSize kl stride sl padding pl nullptr dl cm = Ok opts \<longrightarrow>
        maxpool_dilation opts = maxpool_dilation (MaxPoolOptions 3 (maxpool_kernel_size opts)))"
  by (auto simp add: pool_opts_defs and_then_eq_Ok MaxPoolOptions_def split: if_splits)

theorem null_optional_array_keeps_library_default_witness:
  "THSNN_AvgPool1d_opts (Ptr [3]) nullptr = Ok (AvgPoolOptions 1 [3])
   \<and> avgpool_stride (AvgPoolOptions 1 [3]) = [3]
   \<and> THSNN_MaxPool1d_opts (Ptr [3]) nullptr nullptr nullptr True =
       Ok \<lparr>maxpool_kernel_size = [3], maxpool_stride = [3], maxpool_padding = [0],
            maxpool_dilation = [1], maxpool_ceil_mode = True\<rparr>
   \<and> THSNN_MaxPool2d_opts (Ptr [3, 3]) 2 nullptr 0 (Ptr [1, 1]) 2 nullptr 0 True =
       Ok \<lparr>maxpool_kernel_size = [3, 3], maxpool_stride = [3, 3], maxpool_padding = [1, 1],
            maxpool_dilation = [1, 1], maxpool_ceil_mode = True\<rparr>
   \<and> maxpool_stride (MaxPoolOptions 2 [3, 3]) = [3, 3]
   \<and> maxpool_dilation (MaxPoolOptions 2 [3, 3]) = [1, 1]
   \<and> THSNN_MaxPool3d_opts (Ptr [2, 2, 2]) 3 (Ptr [1, 1, 1]) 3 nullptr 0 (Ptr [2, 2, 2]) 3 False =
       Ok \<lparr>maxpool_kernel_size = [2, 2, 2], maxpool_stride = [1, 1, 1],
            maxpool_padding = [0, 0, 0], maxpool_dilation = [2, 2, 2],
            maxpool_ceil_mode = False\<rparr>
   \<and> maxpool_padding (MaxPoolOptions 3 [2, 2, 2]) = [0, 0, 0]"
proof -
  let ?o1 = "\<lparr>maxpool_kernel_size = [3], maxpool_stride = [3], maxpool_padding = [0],
              maxpool_dilation = [1], maxpool_ceil_mode = True\<rparr> :: maxpool_options"
  let ?o2 = "\<lparr>maxpool_kernel_size = [3, 3], maxpool_stride = [3, 3], maxpool_padding = [1, 1],
              maxpool_dilation = [1, 1], maxpool_ceil_mode = True\<rparr> :: maxpool_options"
  let ?o3 = "\<lparr>maxpool_kernel_size = [2, 2, 2], maxpool_stride = [1, 1, 1],
              maxpool_padding = [0, 0, 0], maxpool_dilation = [2, 2, 2],
              maxpool_ceil_mode = False\<rparr> :: maxpool_options"
  have h1: "THSNN_MaxPool1d_opts (Ptr [3]) nullptr nullptr nullptr True = Ok ?o1"
    by (simp add: pool_opts_defs ExpandingArray_from_one MaxPoolOptions_def
          ExpandingArray_simps)
  have h2: "THSNN_MaxPool2d_opts (Ptr [3, 3]) 2 nullptr 0 (Ptr [1, 1]) 2 nullptr 0 True = Ok ?o2"
    by (simp add: pool_opts_defs ExpandingArray_from_Ptr size_t_numerals MaxPoolOptions_def
          ExpandingArray_simps)
  have h3: "THSNN_MaxPool3d_opts (Ptr [2, 2, 2]) 3 (Ptr [1, 1, 1]) 3 nullptr 0 (Ptr [2, 2, 2]) 3
              False = Ok ?o3"
    by (simp add: pool_opts_defs ExpandingArray_from_Ptr size_t_numerals MaxPoolOptions_def
          ExpandingArray_simps)
  note at_1 = null_optional_array_keeps_library_default
    [where kernelSize = "Ptr [3]" and kl = 1 and sl = 0 and pl = 0 and dl = 0
       and cm = True and stride = nullptr and padding = nullptr
       and dilation = nullptr and opts = ?o1]
  note at_2 = null_optional_array_keeps_library_default
    [where kernelSize = "Ptr [3, 3]" and kl = 2 and sl = 0 and pl = 2 and dl = 0 and cm = True
       and stride = nullptr and padding = "Ptr [1, 1]" and dilation = nullptr and opts = ?o2]
  note at_3 = null_optional_array_keeps_library_default
    [where kernelSize = "Ptr [2, 2, 2]" and kl = 3 and sl = 3 and pl = 0 and dl = 3
       and cm = False and stride = "Ptr [1, 1, 1]" and padding = nullptr
       and dilation = "Ptr [2, 2, 2]" and opts = ?o3]
  have s1: "maxpool_stride ?o1 = maxpool_stride (MaxPoolOptions 1 (maxpool_kernel_size ?o1))"
    and p1: "maxpool_padding ?o1 = maxpool_padding (MaxPoolOptions 1 (maxpool_kernel_size ?o1))"
    and d1: "maxpool_dilation ?o1 = maxpool_dilation (MaxPoolOptions 1 (maxpool_kernel_size ?o1))"
    using at_1 h1 by blast+
  have s2: "maxpool_stride ?o2 = maxpool_stride (MaxPoolOptions 2 (maxpool_kernel_size ?o2))"
    and d2: "maxpool_dilation ?o2 = maxpool_dilation (MaxPoolOptions 2 (maxpool_kernel_size ?o2))"
    using at_2 h2 by blast+
  have p3: "maxpool_padding ?o3 = maxpool_padding (MaxPoolOptions 3 (maxpool_kernel_size ?o3))"
    using at_3 h3 by blast
  have a1: "THSNN_AvgPool1d_opts (Ptr [3]) nullptr =
      and_then (ExpandingArray_from 1 (ArrayRef (Ptr [3]) 1))
        (\<lambda>kernel_size. Ok (AvgPoolOptions 1 kernel_size))"
    using at_1 by blast
  show ?thesis
    using a1 h1 h2 h3 s1 p1 d1 s2 d2 p3
    by (simp add: ExpandingArray_from_one AvgPoolOptions_def)
qed

text \<open>
  Claim C10. \<^verbatim>\<open>THSNN_AvgPool1d_ctor\<close> and \<^verbatim>\<open>THSNN_MaxPool1d_ctor\<close> have no length parameter
  and read one element of each array they are given: the options do not depend on what
  follows the first element of \<^verbatim>\<open>kernelSize\<close>, \<^verbatim>\<open>stride\<close>, \<^verbatim>\<open>padding\<close> or \<^verbatim>\<open>dilation\<close>. The
  2D and 3D constructors use the lengths they are given: a length other than the
  dimension is refused by the library with that length in the fault, and a length equal
  to it reads that many elements.
\<close>

theorem pool1d_reads_one_element:
  "THSNN_AvgPool1d_opts (Ptr (k # ks)) stride = THSNN_AvgPool1d_opts (Ptr [k]) stride
   \<and> THSNN_AvgPool1d_opts kernelSize (Ptr (s # ss)) = THSNN_AvgPool1d_opts kernelSize (Ptr [s])
   \<and> THSNN_MaxPool1d_opts (Ptr (k # ks)) stride padding dilation cm =
       THSNN_MaxPool1d_opts (Ptr [k]) stride padding dilation cm
   \<and> THSNN_MaxPool1d_opts kernelSize (Ptr (s # ss)) padding dilation cm =
       THSNN_MaxPool1d_opts kernelSize (Ptr [s]) padding dilation cm
   \<and> THSNN_MaxPool1d_opts kernelSize stride (Ptr (p # ps)) dilation cm =
       THSNN_MaxPool1d_opts kernelSize stride (Ptr [p]) dilation cm
   \<and> THSNN_MaxPool1d_opts kernelSize stride padding (Ptr (d # ds)) cm =
       THSNN_MaxPool1d_opts kernelSize stride padding (Ptr [d]) cm
   \<and> THSNN_AvgPool1d_opts (Ptr (k # ks)) (Ptr (s # ss)) =
       Ok ((AvgPoolOptions 1 [k])\<lparr>avgpool_stride := [s]\<rparr>)
   \<and> THSNN_MaxPool1d_opts (Ptr (k # ks)) (Ptr (s # ss)) (Ptr (p # ps)) (Ptr (d # ds)) cm =
       Ok \<lparr>maxpool_kernel_size = [k], maxpool_stride = [s], maxpool_padding = [p],
            maxpool_dilation = [d], maxpool_ceil_mode = cm\<rparr>
   \<and> THSNN_AvgPool2d_opts (Ptr kbuf) kl nullptr sl =
       (if size_t kl \<noteq> 2 then Throw (Expected_values 2 (size_t kl))
        else if 2 \<le> length kbuf then Ok (AvgPoolOptions 2 (take 2 kbuf)) else Undefined)
   \<and> THSNN_AvgPool2d_opts (Ptr [ka, kb]) 2 (Ptr sbuf) sl =
       (if size_t sl \<noteq> 2 then Throw (Expected_values 2 (size_t sl))
        else if 2 \<le> length sbuf
             then Ok ((AvgPoolOptions 2 [ka, kb])\<lparr>avgpool_stride := take 2 sbuf\<rparr>)
             else Undefined)
   \<and> THSNN_AvgPool3d_opts (Ptr kbuf) kl nullptr sl =
       (if size_t kl \<noteq> 3 then Throw (Expected_values 3 (size_t kl))
        else if 3 \<le> length kbuf then Ok (AvgPoolOptions 3 (take 3 kbuf)) else Undefined)
   \<and> THSNN_AvgPool3d_opts (Ptr [ka, kb, kc]) 3 (Ptr sbuf) sl =
       (if size_t sl \<noteq> 3 then Throw (Expected_values 3 (size_t sl))
        else if 3 \<le> length sbuf
             then Ok ((AvgPoolOptions 3 [ka, kb, kc])\<lparr>avgpool_stride := take 3 sbuf\<rparr>)
             else Undefined)
   \<and> THSNN_MaxPool2d_opts (Ptr kbuf) kl nullptr sl nullptr pl nullptr dl cm =
       (if size_t kl \<noteq> 2 then Throw (Expected_values 2 (size_t kl))
        else if 2 \<le> length kbuf
             then Ok ((MaxPoolOptions 2 (take 2 kbuf))\<lparr>maxpool_ceil_mode := cm\<rparr>)
             else Undefined)
   \<and> THSNN_MaxPool2d_opts (Ptr [ka, kb]) 2 (Ptr sbuf) sl nullptr pl nullptr dl cm =
       (if size_t sl \<noteq> 2 then Throw (Expected_values 2 (size_t sl))
        else if 2 \<le> length sbuf
             then Ok ((MaxPoolOptions 2 [ka, kb])
                        \<lparr>maxpool_ceil_mode := cm, maxpool_stride := take 2 sbuf\<rparr>)
             else Undefined)
   \<and> THSNN_MaxPool2d_opts (Ptr [ka, kb]) 2 nullptr sl (Ptr pbuf) pl nullptr dl cm =
       (if size_t pl \<noteq> 2 then Throw (Expected_values 2 (size_t pl))
        else if 2 \<le> length pbuf
             then Ok ((MaxPoolOptions 2 [ka, kb])
                        \<lparr>maxpool_ceil_mode := cm, maxpool_padding := take 2 pbuf\<rparr>)
             else Undefined)
   \<and> THSNN_MaxPool2d_opts (Ptr [ka, kb]) 2 nullptr sl nullptr pl (Ptr dbuf) dl cm =
       (if size_t dl \<noteq> 2 then Throw (Expected_values 2 (size_t dl))
        else if 2 \<le> length dbuf
             then Ok ((MaxPoolOptions 2 [ka, kb])
                        \<lparr>maxpool_ceil_mode := cm, maxpool_dilation := take 2 dbuf\<rparr>)
             else Undefined)
   \<and> THSNN_MaxPool3d_opts (Ptr kbuf) kl nullptr sl nullptr pl nullptr dl cm =
       (if size_t kl \<noteq> 3 then Throw (Expected_values 3 (size_t kl))
        else if 3 \<le> length kbuf
             then Ok ((MaxPoolOptions 3 (take 3 kbuf))\<lparr>maxpool_ceil_mode := cm\<rparr>)
             else Undefined)
   \<and> THSNN_MaxPool3d_opts (Ptr [ka, kb, kc]) 3 (Ptr sbuf) sl nullptr pl nullptr dl cm =
       (if size_t sl \<noteq> 3 then Throw (Expected_values 3 (size_t sl))
        else if 3 \<le> length sbuf
             then Ok ((MaxPoolOptions 3 [ka, kb, kc])
                        \<lparr>maxpool_ceil_mode := cm, maxpool_stride := take 3 sbuf\<rparr>)
             else Undefined)
   \<and> THSNN_MaxPool3d_opts (Ptr [ka, kb, kc]) 3 nullptr sl (Ptr pbuf) pl nullptr dl cm =
       (if size_t pl \<noteq> 3 then Throw (Expected_values 3 (size_t pl))
        else if 3 \<le> length pbuf
             then Ok ((MaxPoolOptions 3 [ka, kb, kc])
                        \<lparr>maxpool_ceil_mode := cm, maxpool_padding := take 3 pbuf\<rparr>)
             else Undefined)
   \<and> THSNN_MaxPool3d_opts (Ptr [ka, kb, kc]) 3 nullptr sl nullptr pl (Ptr dbuf) dl cm =
       (if size_t dl \<noteq> 3 then Throw (Expected_values 3 (size_t dl))
        else if 3 \<le> length dbuf
             then Ok ((MaxPoolOptions 3 [ka, kb, kc])
                        \<lparr>maxpool_ceil_mode := cm, maxpool_dilation := take 3 dbuf\<rparr>)
             else Undefined)"
  by (simp add: pool_opts_defs ExpandingArray_from_one ExpandingArray_from_Ptr size_t_numerals
        MaxPoolOptions_def AvgPoolOptions_def)

theorem pool1d_reads_one_element_witness:
  "THSNN_MaxPool1d_opts (Ptr [3, 7, 9]) (Ptr [2, 8]) (Ptr [1, 5]) (Ptr [4, 6]) True =
     Ok \<lparr>maxpool_kernel_size = [3], maxpool_stride = [2], maxpool_padding = [1],
          maxpool_dilation = [4], maxpool_ceil_mode = True\<rparr>
   \<and> THSNN_MaxPool1d_opts (Ptr [3, 7, 9]) (Ptr [2, 8]) (Ptr [1, 5]) (Ptr [4, 6]) True =
       THSNN_MaxPool1d_opts (Ptr [3]) (Ptr [2, 8]) (Ptr [1, 5]) (Ptr [4, 6]) True
   \<and> THSNN_AvgPool1d_opts (Ptr [3, 7, 9]) (Ptr [2, 8]) =
       Ok ((AvgPoolOptions 1 [3])\<lparr>avgpool_stride := [2]\<rparr>)
   \<and> THSNN_AvgPool2d_opts (Ptr [3, 7, 9]) 2 nullptr 0 = Ok (AvgPoolOptions 2 [3, 7])
   \<and> THSNN_AvgPool2d_opts (Ptr [3, 7, 9]) 3 nullptr 0 = Throw (Expected_values 2 3)
   \<and> THSNN_AvgPool3d_opts (Ptr [3, 7, 9]) 3 nullptr 0 = Ok (AvgPoolOptions 3 [3, 7, 9])"
proof -
  note len_2 = pool1d_reads_one_element
    [where k = 3 and ks = "[7, 9]" and s = 2 and ss = "[8]" and p = 1 and ps = "[5]"
       and d = 4 and ds = "[6]" and cm = True and kernelSize = "Ptr [3, 7, 9]"
       and stride = "Ptr [2, 8]" and padding = "Ptr [1, 5]" and dilation = "Ptr [4, 6]"
       and kl = 2 and sl = 0 and pl = 0 and dl = 0 and ka = 3 and kb = 7 and kc = 9
       and kbuf = "[3, 7, 9]" and sbuf = "[2, 8]" and pbuf = "[1, 5]" and dbuf = "[4, 6]"]
  note len_3 = pool1d_reads_one_element
    [where k = 3 and ks = "[7, 9]" and s = 2 and ss = "[8]" and p = 1 and ps = "[5]"
       and d = 4 and ds = "[6]" and cm = True and kernelSize = "Ptr [3, 7, 9]"
       and stride = "Ptr [2, 8]" and padding = "Ptr [1, 5]" and dilation = "Ptr [4, 6]"
       and kl = 3 and sl = 0 and pl = 0 and dl = 0 and ka = 3 and kb = 7 and kc = 9
       and kbuf = "[3, 7, 9]" and sbuf = "[2, 8]" and pbuf = "[1, 5]" and dbuf = "[4, 6]"]
  have max_1d: "THSNN_MaxPool1d_opts (Ptr [3, 7, 9]) (Ptr [2, 8]) (Ptr [1, 5]) (Ptr [4, 6]) True =
      Ok \<lparr>maxpool_kernel_size = [3], maxpool_stride = [2], maxpool_padding = [1],
           maxpool_dilation = [4], maxpool_ceil_mode = True\<rparr>"
    and max_1d_tail:
      "THSNN_MaxPool1d_opts (Ptr [3, 7, 9]) (Ptr [2, 8]) (Ptr [1, 5]) (Ptr [4, 6]) True =
       THSNN_MaxPool1d_opts (Ptr [3]) (Ptr [2, 8]) (Ptr [1, 5]) (Ptr [4, 6]) True"
    and avg_1d: "THSNN_AvgPool1d_opts (Ptr [3, 7, 9]) (Ptr [2, 8]) =
      Ok ((AvgPoolOptions 1 [3])\<lparr>avgpool_stride := [2]\<rparr>)"
    using len_2 by blast+
  have avg_2d: "THSNN_AvgPool2d_opts (Ptr [3, 7, 9]) 2 nullptr 0 =
      (if size_t 2 \<noteq> 2 then Throw (Expected_values 2 (size_t 2))
       else if 2 \<le> length [3, 7, 9 :: int64] then Ok (AvgPoolOptions 2 (take 2 [3, 7, 9]))
       else Undefined)"
    using len_2 by blast
  have avg_2d_3: "THSNN_AvgPool2d_opts (Ptr [3, 7, 9]) 3 nullptr 0 =
      (if size_t 3 \<noteq> 2 then Throw (Expected_values 2 (size_t 3))
       else if 2 \<le> length [3, 7, 9 :: int64] then Ok (AvgPoolOptions 2 (take 2 [3, 7, 9]))
       else Undefined)"
    and avg_3d: "THSNN_AvgPool3d_opts (Ptr [3, 7, 9]) 3 nullptr 0 =
      (if size_t 3 \<noteq> 3 then Throw (Expected_values 3 (size_t 3))
       else if 3 \<le> length [3, 7, 9 :: int64] then Ok (AvgPoolOptions 3 (take 3 [3, 7, 9]))
       else Undefined)"
    using len_3 by blast+
  show ?thesis
    unfolding max_1d_tail [symmetric] avg_2d avg_2d_3 avg_3d
    using max_1d avg_1d by (simp add: size_t_numerals)
qed

section \<open>Properties of forward with indices\<close>

lemmas forward_with_indices_defs =
  THSNN_MaxPool1d_forward_with_indices_def THSNN_MaxPool2d_forward_with_indices_def
  THSNN_MaxPool3d_forward_with_indices_def

text \<open>
  Claim C3, as amended. For \<^verbatim>\<open>THSNN_MaxPool1d/2d/3d_forward_with_indices\<close>, called with
  non-null handles and a non-null \<^verbatim>\<open>indices\<close> pointer: when the library's computation
  returns the pair \<open>(v, i)\<close>, the returned handle references \<open>v\<close> and the \<^verbatim>\<open>indices\<close> pointee
  references \<open>i\<close>; when it raises \<open>e\<close>, no tensor is delivered through either output: the
  null handle is returned, \<open>e\<close> is stored in the last-error slot, and the \<^verbatim>\<open>indices\<close>
  out-parameter is not left as it was but written: the store \<^verbatim>\<open>*indices = ResultTensor(...)\<close>
  stands after the boundary and puts the null handle there, whatever the pointee held
  before.
\<close>

theorem forward_with_indices_outputs:
  "(fwi m t = Ok (v, i) \<longrightarrow>
      (\<exists>le'. THSNN_MaxPool1d_forward_with_indices fwi (Ptr m) (Ptr t) (Ptr c) le =
              Ok (Ptr v, Ptr (Ptr i), le')))
   \<and> (fwi m t = Throw e \<longrightarrow>
        THSNN_MaxPool1d_forward_with_indices fwi (Ptr m) (Ptr t) (Ptr c) le =
          Ok (nullptr, Ptr nullptr, Some e))
   \<and> (fwi m t = Ok (v, i) \<longrightarrow>
      (\<exists>le'. THSNN_MaxPool2d_forward_with_indices fwi (Ptr m) (Ptr t) (Ptr c) le =
              Ok (Ptr v, Ptr (Ptr i), le')))
   \<and> (fwi m t = Throw e \<longrightarrow>
        THSNN_MaxPool2d_forward_with_indices fwi (Ptr m) (Ptr t) (Ptr c) le =
          Ok (nullptr, Ptr nullptr, Some e))
   \<and> (fwi m t = Ok (v, i) \<longrightarrow>
      (\<exists>le'. THSNN_MaxPool3d_forward_with_indices fwi (Ptr m) (Ptr t) (Ptr c) le =
              Ok (Ptr v, Ptr (Ptr i), le')))
   \<and> (fwi m t = Throw e \<longrightarrow>
        THSNN_MaxPool3d_forward_with_indices fwi (Ptr m) (Ptr t) (Ptr c) le =
          Ok (nullptr, Ptr nullptr, Some e))"
  by (simp add: forward_with_indices_defs CATCH_def ResultTensor_def)

theorem forward_with_indices_outputs_witness:
  "THSNN_MaxPool1d_forward_with_indices (\<lambda>m t. Ok (t + m, t)) (Ptr (1 :: nat)) (Ptr (5 :: nat))
       (Ptr nullptr) None =
     Ok (Ptr 6, Ptr (Ptr 5), None)
   \<and> THSNN_MaxPool2d_forward_with_indices (\<lambda>m t. Throw (Library_fault ''rank''))
         (Ptr (1 :: nat)) (Ptr (5 :: nat)) (Ptr (Ptr 9)) None =
       Ok (nullptr, Ptr nullptr, Some (Library_fault ''rank''))"
proof -
  let ?ok = "\<lambda>(m :: nat) (t :: nat). Ok (t + m, t) :: (nat \<times> nat) outcome"
  let ?bad = "\<lambda>(m :: nat) (t :: nat). Throw (Library_fault ''rank'') :: (nat \<times> nat) outcome"
  have h_ok: "?ok 1 5 = Ok (6, 5)" by simp
  have h_bad: "?bad 1 5 = Throw (Library_fault ''rank'')" by simp
  note success = forward_with_indices_outputs
    [where fwi = ?ok and m = 1 and t = 5 and v = 6 and i = 5 and c = nullptr and le = None
       and e = "Library_fault ''rank''"]
  note failure = forward_with_indices_outputs
    [where fwi = ?bad and m = 1 and t = 5 and v = 6 and i = 5 and c = "Ptr 9" and le = None
       and e = "Library_fault ''rank''"]
  from success h_ok
  have "\<exists>le'. THSNN_MaxPool1d_forward_with_indices ?ok (Ptr 1) (Ptr 5) (Ptr nullptr) None =
          Ok (Ptr 6, Ptr (Ptr 5), le')"
    by blast
  moreover from failure h_bad
  have "THSNN_MaxPool2d_forward_with_indices ?bad (Ptr 1) (Ptr 5) (Ptr (Ptr 9)) None =
          Ok (nullptr, Ptr nullptr, Some (Library_fault ''rank''))"
    by blast
  ultimately show ?thesis
    by (auto simp add: forward_with_indices_defs CATCH_def ResultTensor_def)
qed

text \<open>
  Claim C3 as stated fails: it has the \<^verbatim>\<open>indices\<close> out-parameter left unset on failure.
  With a pointee that holds the handle \<open>Ptr 9\<close> before the call and a computation that
  raises, \<^verbatim>\<open>THSNN_MaxPool1d_forward_with_indices\<close> overwrites the pointee with the null
  handle; the result is not the one that leaves the pointee as it was.
\<close>

theorem forward_with_indices_overwrites_indices_counterexample:
  "THSNN_MaxPool1d_forward_with_indices (\<lambda>m t. Throw (Library_fault ''rank''))
       (Ptr (1 :: nat)) (Ptr (5 :: nat)) (Ptr (Ptr 9)) None =
     Ok (nullptr, Ptr nullptr, Some (Library_fault ''rank''))
   \<and> THSNN_MaxPool1d_forward_with_indices (\<lambda>m t. Throw (Library_fault ''rank''))
         (Ptr (1 :: nat)) (Ptr (5 :: nat)) (Ptr (Ptr 9)) None \<noteq>
       Ok (nullptr, Ptr (Ptr 9), Some (Library_fault ''rank''))"
  by (simp add: THSNN_MaxPool1d_forward_with_indices_def CATCH_def ResultTensor_def)

section \<open>Properties of the weight and bias accessors\<close>

lemmas accessor_defs =
  THSNN_Conv1d_weight_def THSNN_Conv1d_set_weight_def THSNN_Conv1d_bias_def
  THSNN_Conv1d_set_bias_def THSNN_Conv2d_weight_def THSNN_Conv2d_set_weight_def
  THSNN_Conv2d_bias_def THSNN_Conv2d_set_bias_def THSNN_Conv3d_weight_def
  THSNN_Conv3d_set_weight_def THSNN_Conv3d_bias_def THSNN_Conv3d_set_bias_def
  THSNN_ConvTranspose1d_weight_def THSNN_ConvTranspose1d_set_weight_def
  THSNN_ConvTranspose1d_bias_def THSNN_ConvTranspose1d_set_bias_def
  THSNN_ConvTranspose2d_weight_def THSNN_ConvTranspose2d_set_weight_def
  THSNN_ConvTranspose2d_bias_def THSNN_ConvTranspose2d_set_bias_def
  THSNN_ConvTranspose3d_weight_def THSNN_ConvTranspose3d_set_weight_def
  THSNN_ConvTranspose3d_bias_def THSNN_ConvTranspose3d_set_bias_def

text \<open>
  Claim C7. For each of the six convolution and transposed-convolution classes, on a
  module of that class with any weight and bias: setting the weight (or the bias) through
  a handle to the tensor \<open>w\<close> (or \<open>b\<close>) and then getting it returns a handle to that same
  tensor. Handles are modelled by the tensor they reference, so equal handles mean the
  same tensor and not a copy of it.
\<close>

theorem set_then_get_returns_same_tensor:
  "and_then
       (THSNN_Conv1d_set_weight
          (Ptr \<lparr>module_class = Conv1d, module_weight = w_old, module_bias = b_old\<rparr>) (Ptr w))
       (\<lambda>m. THSNN_Conv1d_weight (Ptr m)) = Ok (Ptr w)
   \<and> and_then
       (THSNN_Conv1d_set_bias
          (Ptr \<lparr>module_class = Conv1d, module_weight = w_old, module_bias = b_old\<rparr>) (Ptr b))
       (\<lambda>m. THSNN_Conv1d_bias (Ptr m)) = Ok (Ptr b)
   \<and> and_then
       (THSNN_Conv2d_set_weight
          (Ptr \<lparr>module_class = Conv2d, module_weight = w_old, module_bias = b_old\<rparr>) (Ptr w))
       (\<lambda>m. THSNN_Conv2d_weight (Ptr m)) = Ok (Ptr w)
   \<and> and_then
       (THSNN_Conv2d_set_bias
          (Ptr \<lparr>module_class = Conv2d, module_weight = w_old, module_bias = b_old\<rparr>) (Ptr b))
       (\<lambda>m. THSNN_Conv2d_bias (Ptr m)) = Ok (Ptr b)
   \<and> and_then
       (THSNN_Conv3d_set_weight
          (Ptr \<lparr>module_class = Conv3d, module_weight = w_old, module_bias = b_old\<rparr>) (Ptr w))
       (\<lambda>m. THSNN_Conv3d_weight (Ptr m)) = Ok (Ptr w)
   \<and> and_then
       (THSNN_Conv3d_set_bias
          (Ptr \<lparr>module_class = Conv3d, module_weight = w_old, module_bias = b_old\<rparr>) (Ptr b))
       (\<lambda>m. THSNN_Conv3d_bias (Ptr m)) = Ok (Ptr b)
   \<and> and_then
       (THSNN_ConvTranspose1d_set_weight
          (Ptr \<lparr>module_class = ConvTranspose1d, module_weight = w_old, module_bias = b_old\<rparr>) (Ptr w))
       (\<lambda>m. THSNN_ConvTranspose1d_weight (Ptr m)) = Ok (Ptr w)
   \<and> and_then
       (THSNN_ConvTranspose1d_set_bias
          (Ptr \<lparr>module_class = ConvTranspose1d, module_weight = w_old, module_bias = b_old\<rparr>) (Ptr b))
       (\<lambda>m. THSNN_ConvTranspose1d_bias (Ptr m)) = Ok (Ptr b)
   \<and> and_then
       (THSNN_ConvTranspose2d_set_weight
          (Ptr \<lparr>module_class = ConvTranspose2d, module_weight = w_old, module_bias = b_old\<rparr>) (Ptr w))
       (\<lambda>m. THSNN_ConvTranspose2d_weight (Ptr m)) = Ok (Ptr w)
   \<and> and_then
       (THSNN_ConvTranspose2d_set_bias
          (Ptr \<lparr>module_class = ConvTranspose2d, module_weight = w_old, module_bias = b_old\<rparr>) (Ptr b))
       (\<lambda>m. THSNN_ConvTranspose2d_bias (Ptr m)) = Ok (Ptr b)
   \<and> and_then
       (THSNN_ConvTranspose3d_set_weight
          (Ptr \<lparr>module_class = ConvTranspose3d, module_weight = w_old, module_bias = b_old\<rparr>) (Ptr w))
       (\<lambda>m. THSNN_ConvTranspose3d_weight (Ptr m)) = Ok (Ptr w)
   \<and> and_then
       (THSNN_ConvTranspose3d_set_bias
          (Ptr \<lparr>module_class = ConvTranspose3d, module_weight = w_old, module_bias = b_old\<rparr>) (Ptr b))
       (\<lambda>m. THSNN_ConvTranspose3d_bias (Ptr m)) = Ok (Ptr b)"
  by (simp add: accessor_defs get_weight_def set_weight_def get_bias_def set_bias_def
        ResultTensor_def)

theorem set_then_get_returns_same_tensor_witness:
  "and_then
     (THSNN_Conv1d_set_weight
        (Ptr \<lparr>module_class = Conv1d, module_weight = Some (1 :: nat), module_bias = None\<rparr>)
        (Ptr 7))
     (\<lambda>m. THSNN_Conv1d_weight (Ptr m)) = Ok (Ptr 7)
   \<and> and_then
       (THSNN_ConvTranspose3d_set_bias
          (Ptr \<lparr>module_class = ConvTranspose3d, module_weight = Some (1 :: nat),
                module_bias = None\<rparr>)
          (Ptr 8))
       (\<lambda>m. THSNN_ConvTranspose3d_bias (Ptr m)) = Ok (Ptr 8)"
  using set_then_get_returns_same_tensor
    [where w_old = "Some (1 :: nat)" and b_old = None and w = 7 and b = 8]
  by blast

end
